theory Spec2Isabelle
  imports Complex_Main
begin

section \<open>Values of the configuration subsystem\<close>

text \<open>
  The configuration commands of \<^verbatim>\<open>src/commands/config.ts\<close> keep one flat JSON document in
  \<^verbatim>\<open>./config.json\<close>. A file that parses holds a JSON value; numbers are the finite numbers
  that \<^verbatim>\<open>JSON.stringify\<close> writes. Strings are sequences of code units below 256.
\<close>

datatype json =
    JNull
  | JBool bool
  | JNum rat
  | JStr string
  | JArr "json list"
  | JObj "(string \<times> json) list"

text \<open>
  The numbers of the language that JSON cannot write: \<^verbatim>\<open>parseInt\<close> yields \<^verbatim>\<open>NaN\<close> when no
  digit is found, and an infinity when the digits exceed the range of a double.
\<close>

datatype nonfinite = NaN | PosInf | NegInf

text \<open>
  A value held in memory: data as JSON has it, a non-finite number, a member that an
  object literal inherits from \<^verbatim>\<open>Object.prototype\<close>, named by its property key, or
  \<^verbatim>\<open>undefined\<close>.
\<close>

datatype "value" =
    Data json
  | NonFinite nonfinite
  | Builtin string
  | Undefined

text \<open>
  An object is the list of its own properties in the order of their enumeration. A new
  property is put at the end, the place of every key that is not an array index. (The engine
  enumerates array indices first, in ascending order; no statement below depends on where a
  new property is placed.)
\<close>

type_synonym obj = "(string \<times> value) list"

text \<open>What \<^verbatim>\<open>saveConfig\<close> is given: an object built in memory, or a parsed file as it is.\<close>

datatype jsvalue = Object obj | Parsed json

text \<open>The property keys that every object literal inherits from \<^verbatim>\<open>Object.prototype\<close>.\<close>

definition prototype_keys :: "string list" where
  "prototype_keys =
     [''constructor'', ''__defineGetter__'', ''__defineSetter__'', ''hasOwnProperty'',
      ''__lookupGetter__'', ''__lookupSetter__'', ''isPrototypeOf'', ''propertyIsEnumerable'',
      ''toString'', ''valueOf'', ''__proto__'', ''toLocaleString'']"

text \<open>\<^verbatim>\<open>key in o\<close>: an own property or an inherited one.\<close>

definition has_property :: "string \<Rightarrow> obj \<Rightarrow> bool" where
  "has_property k ob = (k \<in> set (map fst ob) \<or> k \<in> set prototype_keys)"

text \<open>\<^verbatim>\<open>o[key]\<close>: the own property, else the inherited member, else \<^verbatim>\<open>undefined\<close>.\<close>

definition get_property :: "obj \<Rightarrow> string \<Rightarrow> value" where
  "get_property ob k =
     (case map_of ob k of
        Some v \<Rightarrow> v
      | None \<Rightarrow> if k \<in> set prototype_keys then Builtin k else Undefined)"

text \<open>
  Defining an own data property, as object spread does: an existing key keeps its place and
  takes the new value, a new key goes to the end.
\<close>

fun define_property :: "string \<Rightarrow> value \<Rightarrow> obj \<Rightarrow> obj" where
  "define_property k v [] = [(k, v)]"
| "define_property k v ((k', v') # ob) =
     (if k' = k then (k, v) # ob else (k', v') # define_property k v ob)"

text \<open>
  The assignment \<^verbatim>\<open>o[key] = value\<close>. Every inherited member is a writable data property that
  the assignment shadows with an own property, except \<^verbatim>\<open>__proto__\<close>: without an own property
  of that name the assignment runs the inherited setter, which creates no property, ignores
  a value that is not an object, and leaves the prototype as it is when given
  \<^verbatim>\<open>Object.prototype\<close> itself. The program assigns strings, booleans, numbers and members of
  \<^verbatim>\<open>DEFAULT_CONFIG\<close> only.
\<close>

definition assign :: "string \<Rightarrow> value \<Rightarrow> obj \<Rightarrow> obj" where
  "assign k v ob =
     (if k = ''__proto__'' \<and> k \<notin> set (map fst ob) then ob else define_property k v ob)"

text \<open>The decimal name of an array index.\<close>

fun index_key :: "nat \<Rightarrow> string" where
  "index_key n =
     (if n < 10 then [''0123456789'' ! n]
      else index_key (n div 10) @ [''0123456789'' ! (n mod 10)])"

declare index_key.simps [simp del]

text \<open>
  The own enumerable properties of a parsed value, as \<^verbatim>\<open>Object.entries\<close> and object spread
  see them: the members of an object, the elements of an array and the characters of a
  string under their indices, nothing for a number, a boolean or \<^verbatim>\<open>null\<close>.
\<close>

fun own_entries :: "json \<Rightarrow> obj" where
  "own_entries (JObj kvs) = map (\<lambda>(k, j). (k, Data j)) kvs"
| "own_entries (JArr xs) = map (\<lambda>(i, j). (index_key i, Data j)) (enumerate 0 xs)"
| "own_entries (JStr s) = map (\<lambda>(i, c). (index_key i, Data (JStr [c]))) (enumerate 0 s)"
| "own_entries _ = []"

text \<open>\<^verbatim>\<open>{ ...a, ...b }\<close> where \<open>a\<close> is an object in memory and \<open>b\<close> the listed properties.\<close>

definition spread :: "obj \<Rightarrow> obj \<Rightarrow> obj" where
  "spread a b = foldl (\<lambda>ob (k, v). define_property k v ob) a b"

datatype exn = TypeError | SyntaxError

text \<open>\<^verbatim>\<open>Object.entries(x)\<close> throws on \<^verbatim>\<open>null\<close>.\<close>

definition Object_entries :: "json \<Rightarrow> exn + obj" where
  "Object_entries j = (if j = JNull then Inl TypeError else Inr (own_entries j))"

text \<open>
  \<^verbatim>\<open>JSON.stringify\<close> of an object in memory, read back as the JSON value the text denotes:
  a non-finite number is written \<^verbatim>\<open>null\<close>, a property holding a function or
  \<^verbatim>\<open>undefined\<close> is left out, and
  \<^verbatim>\<open>Object.prototype\<close> (the inherited member \<^verbatim>\<open>__proto__\<close>) is written as the empty object.
\<close>

fun stringify_property :: "string \<times> value \<Rightarrow> (string \<times> json) option" where
  "stringify_property (k, Data j) = Some (k, j)"
| "stringify_property (k, NonFinite _) = Some (k, JNull)"
| "stringify_property (k, Builtin b) = (if b = ''__proto__'' then Some (k, JObj []) else None)"
| "stringify_property (k, Undefined) = None"

fun JSON_stringify :: "jsvalue \<Rightarrow> json" where
  "JSON_stringify (Object ob) = JObj (List.map_filter stringify_property ob)"
| "JSON_stringify (Parsed j) = j"

section \<open>The built-in conversions of strings to numbers\<close>

text \<open>
  \<^verbatim>\<open>Number\<close>, \<^verbatim>\<open>parseFloat\<close> and \<^verbatim>\<open>parseInt\<close> are functions of the language, not of the
  repository; they are written out here after ECMA-262. Of \<^verbatim>\<open>Number(s)\<close> and
  \<^verbatim>\<open>parseFloat(s)\<close> the program only asks whether the result is \<^verbatim>\<open>NaN\<close>.
\<close>

definition is_whitespace :: "char \<Rightarrow> bool" where
  "is_whitespace c = (c \<in> set [CHR 0x09, CHR 0x0A, CHR 0x0B, CHR 0x0C, CHR 0x0D, CHR 0x20, CHR 0xA0])"

definition is_digit :: "char \<Rightarrow> bool" where
  "is_digit c = (c \<in> set ''0123456789'')"

definition is_hex_digit :: "char \<Rightarrow> bool" where
  "is_hex_digit c = (c \<in> set ''0123456789abcdefABCDEF'')"

definition trim_start :: "string \<Rightarrow> string" where
  "trim_start s = dropWhile is_whitespace s"

definition trim_end :: "string \<Rightarrow> string" where
  "trim_end s = rev (dropWhile is_whitespace (rev s))"

text \<open>\<open>DecimalDigits\<close>: one digit or more, and nothing else.\<close>

definition decimal_digits :: "string \<Rightarrow> bool" where
  "decimal_digits s = (s \<noteq> [] \<and> list_all is_digit s)"

text \<open>\<open>SignedInteger\<close>.\<close>

fun signed_integer :: "string \<Rightarrow> bool" where
  "signed_integer [] = False"
| "signed_integer (c # s) =
     (if c = CHR ''+'' \<or> c = CHR ''-'' then decimal_digits s else decimal_digits (c # s))"

text \<open>An optional \<open>ExponentPart\<close>, up to the end of the string.\<close>

fun exponent_part_opt :: "string \<Rightarrow> bool" where
  "exponent_part_opt [] = True"
| "exponent_part_opt (c # s) = ((c = CHR ''e'' \<or> c = CHR ''E'') \<and> signed_integer s)"

text \<open>
  \<open>StrUnsignedDecimalLiteral\<close>: \<^verbatim>\<open>Infinity\<close>, digits with an optional fraction, or a
  fraction of one digit or more, each with an optional exponent.
\<close>

definition str_unsigned_decimal_literal :: "string \<Rightarrow> bool" where
  "str_unsigned_decimal_literal s =
     (s = ''Infinity'' \<or>
      (let ip = takeWhile is_digit s; r = dropWhile is_digit s
       in case r of
            [] \<Rightarrow> ip \<noteq> []
          | c # r' \<Rightarrow>
              if c = CHR ''.''
              then (ip \<noteq> [] \<or> takeWhile is_digit r' \<noteq> []) \<and>
                   exponent_part_opt (dropWhile is_digit r')
              else ip \<noteq> [] \<and> exponent_part_opt r))"

text \<open>\<open>StrDecimalLiteral\<close>: an optional sign before the unsigned literal.\<close>

fun str_decimal_literal :: "string \<Rightarrow> bool" where
  "str_decimal_literal [] = False"
| "str_decimal_literal (c # s) =
     (if c = CHR ''+'' \<or> c = CHR ''-'' then str_unsigned_decimal_literal s
      else str_unsigned_decimal_literal (c # s))"

text \<open>\<open>NonDecimalIntegerLiteral\<close>: \<^verbatim>\<open>0x\<close>, \<^verbatim>\<open>0o\<close> or \<^verbatim>\<open>0b\<close> and digits of that base, unsigned.\<close>

fun non_decimal_integer_literal :: "string \<Rightarrow> bool" where
  "non_decimal_integer_literal (z # p # ds) =
     (z = CHR ''0'' \<and> ds \<noteq> [] \<and>
      (if p = CHR ''x'' \<or> p = CHR ''X'' then list_all is_hex_digit ds
       else if p = CHR ''o'' \<or> p = CHR ''O'' then list_all (\<lambda>c. c \<in> set ''01234567'') ds
       else if p = CHR ''b'' \<or> p = CHR ''B'' then list_all (\<lambda>c. c \<in> set ''01'') ds
       else False))"
| "non_decimal_integer_literal _ = False"

text \<open>
  \<^verbatim>\<open>isNaN(Number(s))\<close>: \<^verbatim>\<open>Number\<close> is a number exactly on a \<open>StringNumericLiteral\<close>, which is
  white space alone (the number 0) or a literal with white space around it.
\<close>

definition Number_isNaN :: "string \<Rightarrow> bool" where
  "Number_isNaN s =
     (let t = trim_end (trim_start s)
      in \<not> (t = [] \<or> str_decimal_literal t \<or> non_decimal_integer_literal t))"

text \<open>
  \<^verbatim>\<open>isNaN(parseFloat(s))\<close>: \<^verbatim>\<open>parseFloat\<close> reads the longest prefix of the string, leading
  white space removed, that is a \<open>StrDecimalLiteral\<close>, and is \<^verbatim>\<open>NaN\<close> when there is none.
  A prefix exists exactly when, after an optional sign, the string starts with
  \<^verbatim>\<open>Infinity\<close>, with a digit, or with a point and a digit.
\<close>

fun decimal_prefix :: "string \<Rightarrow> bool" where
  "decimal_prefix [] = False"
| "decimal_prefix (c # s) =
     (if is_digit c then True
      else if c = CHR ''.'' then (case s of [] \<Rightarrow> False | d # _ \<Rightarrow> is_digit d)
      else take 8 (c # s) = ''Infinity'')"

fun signed_decimal_prefix :: "string \<Rightarrow> bool" where
  "signed_decimal_prefix [] = False"
| "signed_decimal_prefix (c # s) =
     (if c = CHR ''+'' \<or> c = CHR ''-'' then decimal_prefix s else decimal_prefix (c # s))"

definition parseFloat_isNaN :: "string \<Rightarrow> bool" where
  "parseFloat_isNaN s = (\<not> signed_decimal_prefix (trim_start s))"

text \<open>The value of one digit, and of a string of digits read in a radix.\<close>

definition digit_value :: "char \<Rightarrow> int" where
  "digit_value c =
     (if is_digit c then of_char c - 48
      else if c \<in> set ''abcdef'' then of_char c - 87
      else of_char c - 55)"

definition digits_value :: "int \<Rightarrow> string \<Rightarrow> int" where
  "digits_value radix ds = foldl (\<lambda>acc c. acc * radix + digit_value c) 0 ds"

text \<open>The number of binary digits of a positive integer.\<close>

function bit_length :: "int \<Rightarrow> nat" where
  "bit_length n = (if n \<le> 0 then 0 else Suc (bit_length (n div 2)))"
  by pat_completeness auto
termination
  by (relation "measure nat") auto

declare bit_length.simps [simp del]

text \<open>
  Rounding an integer of more than 53 binary digits to 53 significant bits, ties to even.
\<close>

definition round_to_significand :: "int \<Rightarrow> int" where
  "round_to_significand m =
     (let e = bit_length m - 53;
          q = m div 2 ^ e;
          r = m mod 2 ^ e;
          h = 2 ^ (e - 1);
          q' = (if h < r \<or> (r = h \<and> odd q) then q + 1 else q)
      in q' * 2 ^ e)"

text \<open>
  The Number value of an integer: exact below \<open>2^53\<close>, beyond that rounded to 53 significant
  bits, and an infinity when the rounded magnitude reaches \<open>2^1024\<close>.
\<close>

definition number_of_integer :: "int \<Rightarrow> value" where
  "number_of_integer n =
     (if \<bar>n\<bar> < 2 ^ 53 then Data (JNum (of_int n))
      else if 2 ^ 1024 \<le> round_to_significand \<bar>n\<bar>
      then NonFinite (if n < 0 then NegInf else PosInf)
      else Data (JNum (of_int (sgn n * round_to_significand \<bar>n\<bar>))))"

text \<open>
  \<^verbatim>\<open>parseInt(s)\<close> without a radix: leading white space and one sign are removed, \<^verbatim>\<open>0x\<close> or
  \<^verbatim>\<open>0X\<close> selects radix 16, the digits up to the first other character are read, and the
  result is \<^verbatim>\<open>NaN\<close> when there is no digit.
\<close>

definition parseInt :: "string \<Rightarrow> value" where
  "parseInt s =
     (let t = trim_start s;
          negative = (t \<noteq> [] \<and> hd t = CHR ''-'');
          u = (if t \<noteq> [] \<and> (hd t = CHR ''+'' \<or> hd t = CHR ''-'') then tl t else t);
          hex = (take 2 u = ''0x'' \<or> take 2 u = ''0X'');
          w = (if hex then drop 2 u else u);
          z = takeWhile (if hex then is_hex_digit else is_digit) w
      in if z = [] then NonFinite NaN
         else number_of_integer
                ((if negative then - 1 else 1) * digits_value (if hex then 16 else 10) z))"

section \<open>The schema: defaults, validators, suggestions\<close>

definition DEFAULT_CONFIG :: obj where
  "DEFAULT_CONFIG =
     [(''theme'', Data (JStr ''default'')),
      (''colorOutput'', Data (JBool True)),
      (''dateFormat'', Data (JStr ''locale'')),
      (''defaultPriority'', Data (JStr ''medium'')),
      (''autoSave'', Data (JBool True)),
      (''maxItems'', Data (JNum 100)),
      (''apiUrl'', Data (JStr ''https://api.example.com'')),
      (''timeout'', Data (JNum 5000)),
      (''language'', Data (JStr ''en'')),
      (''debug'', Data (JBool False))]"

definition array_includes :: "string list \<Rightarrow> value \<Rightarrow> bool" where
  "array_includes xs v = (case v of Data (JStr s) \<Rightarrow> s \<in> set xs | _ \<Rightarrow> False)"

definition is_boolean :: "value \<Rightarrow> bool" where
  "is_boolean v = (case v of Data (JBool _) \<Rightarrow> True | _ \<Rightarrow> False)"

text \<open>\<^verbatim>\<open>Number.isInteger(val) && lo < val && val <= hi\<close>, the upper bound optional.\<close>

definition integer_in :: "rat \<Rightarrow> rat option \<Rightarrow> value \<Rightarrow> bool" where
  "integer_in lo hi v =
     (case v of
        Data (JNum q) \<Rightarrow>
          of_int \<lfloor>q\<rfloor> = q \<and> lo < q \<and> (case hi of None \<Rightarrow> True | Some h \<Rightarrow> q \<le> h)
      | _ \<Rightarrow> False)"

definition nonempty_string :: "value \<Rightarrow> bool" where
  "nonempty_string v = (case v of Data (JStr s) \<Rightarrow> s \<noteq> [] | _ \<Rightarrow> False)"

text \<open>The own properties of the table \<^verbatim>\<open>validators\<close>.\<close>

definition validators :: "(string \<times> (value \<Rightarrow> bool)) list" where
  "validators =
     [(''theme'', array_includes [''default'', ''dark'', ''light'', ''rainbow'']),
      (''colorOutput'', is_boolean),
      (''dateFormat'', array_includes [''locale'', ''iso'', ''us'', ''eu'']),
      (''defaultPriority'', array_includes [''low'', ''medium'', ''high'', ''urgent'']),
      (''autoSave'', is_boolean),
      (''maxItems'', integer_in 0 (Some 1000)),
      (''apiUrl'', nonempty_string),
      (''timeout'', integer_in 0 None),
      (''language'', array_includes [''en'', ''es'', ''fr'', ''de'', ''it'']),
      (''debug'', is_boolean)]"

text \<open>The own properties of the table \<^verbatim>\<open>suggestions\<close>.\<close>

definition suggestions :: "(string \<times> string) list" where
  "suggestions =
     [(''theme'', ''Must be one of: default, dark, light, rainbow''),
      (''colorOutput'', ''Must be true or false''),
      (''dateFormat'', ''Must be one of: locale, iso, us, eu''),
      (''defaultPriority'', ''Must be one of: low, medium, high, urgent''),
      (''autoSave'', ''Must be true or false''),
      (''maxItems'', ''Must be a number between 1 and 1000''),
      (''apiUrl'', ''Must be a valid URL string''),
      (''timeout'', ''Must be a positive number''),
      (''language'', ''Must be one of: en, es, fr, de, it''),
      (''debug'', ''Must be true or false'')]"

text \<open>
  What \<^verbatim>\<open>validation.message\<close> holds: a text, or the function that \<^verbatim>\<open>suggestions[key]\<close>
  inherits under a key of \<^verbatim>\<open>Object.prototype\<close>.
\<close>

datatype message = Text string | Inherited string

datatype validation = Valid "value" | Invalid message

text \<open>
  \<^verbatim>\<open>validators[key]\<close> under a key of \<^verbatim>\<open>Object.prototype\<close> is the inherited member, which is
  truthy, and \<^verbatim>\<open>validator(convertedValue)\<close> is a plain call, which passes \<^verbatim>\<open>undefined\<close> as
  \<^verbatim>\<open>this\<close>: \<^verbatim>\<open>Object\<close> (the member \<^verbatim>\<open>constructor\<close>) and \<^verbatim>\<open>toString\<close> return a truthy
  result, \<^verbatim>\<open>isPrototypeOf\<close> returns false on a primitive before it looks at \<^verbatim>\<open>this\<close>,
  \<^verbatim>\<open>__proto__\<close> is not a function, and the others throw a \<^verbatim>\<open>TypeError\<close> on the missing
  \<^verbatim>\<open>this\<close>.
\<close>

definition is_primitive :: "value \<Rightarrow> bool" where
  "is_primitive v =
     (case v of
        Data (JArr _) \<Rightarrow> False
      | Data (JObj _) \<Rightarrow> False
      | Builtin _ \<Rightarrow> False
      | _ \<Rightarrow> True)"

definition call_inherited :: "string \<Rightarrow> value \<Rightarrow> exn + bool" where
  "call_inherited k v =
     (if k = ''constructor'' \<or> k = ''toString'' then Inr True
      else if k = ''isPrototypeOf'' \<and> is_primitive v then Inr False
      else Inl TypeError)"

text \<open>Lines 59 to 65: the conversion of a string before the validator sees it.\<close>

definition convert :: "value \<Rightarrow> value" where
  "convert v =
     (case v of
        Data (JStr s) \<Rightarrow>
          if s = ''true'' then Data (JBool True)
          else if s = ''false'' then Data (JBool False)
          else if \<not> Number_isNaN s \<and> \<not> parseFloat_isNaN s then parseInt s
          else v
      | _ \<Rightarrow> v)"

definition validateConfigValue :: "string \<Rightarrow> value \<Rightarrow> exn + validation" where
  "validateConfigValue key v =
     (case map_of validators key of
        Some validator \<Rightarrow>
          if validator (convert v) then Inr (Valid (convert v))
          else Inr (Invalid (case map_of suggestions key of
                               Some m \<Rightarrow> Text m
                             | None \<Rightarrow> Text ''Invalid value''))
      | None \<Rightarrow>
          if key \<in> set prototype_keys
          then (case call_inherited key (convert v) of
                  Inl e \<Rightarrow> Inl e
                | Inr True \<Rightarrow> Inr (Valid (convert v))
                | Inr False \<Rightarrow> Inr (Invalid (Inherited key)))
          else Inr (Invalid (Text (''Unknown configuration key: '' @ key))))"

section \<open>The process: files, console, exit status\<close>

text \<open>
  File names stand for the absolute paths that \<^verbatim>\<open>path.resolve\<close> gives them. A file holds
  text that \<^verbatim>\<open>JSON.parse\<close> rejects, or the text of a JSON value. Writing a file succeeds.
\<close>

type_synonym path = string

datatype content = Unparseable | Json json

definition CONFIG_FILE :: path where
  "CONFIG_FILE = ''./config.json''"

text \<open>Where a line goes: \<^verbatim>\<open>console.log\<close>, \<^verbatim>\<open>console.error\<close>, or the spinner.\<close>

datatype stream = Log | Error | Spinner

text \<open>What a line says; colours, boxes and icons are left out.\<close>

datatype report =
    Configuration_loaded
  | All_values string obj
  | Key_not_found string
  | Available_keys "string list"
  | Key_value string string "value"
  | Validation_failed message
  | Configuration_updated string "value" "value"
  | Error_setting exn
  | Unknown_key string
  | Operation_cancelled
  | Key_reset string "value" "value"
  | Configuration_reset
  | Configuration_exported path nat
  | File_not_found path
  | Validation_errors_found
  | Validation_error string message
  | Use_force_hint
  | Configuration_imported path bool nat nat
  | Error_importing exn

text \<open>
  The state of one run of the program. The exit status is 0 when the program starts and
  stays so unless \<^verbatim>\<open>process.exit\<close> or \<^verbatim>\<open>process.exitCode\<close> sets it.
\<close>

record process =
  files :: "path \<Rightarrow> content option"
  console :: "(stream \<times> report) list"
  exit_code :: nat

definition start :: "(path \<Rightarrow> content option) \<Rightarrow> process" where
  "start fs = \<lparr>files = fs, console = [], exit_code = 0\<rparr>"

definition emit :: "stream \<Rightarrow> report \<Rightarrow> process \<Rightarrow> process" where
  "emit st out p = p\<lparr>console := console p @ [(st, out)]\<rparr>"

definition writeFile :: "path \<Rightarrow> json \<Rightarrow> process \<Rightarrow> process" where
  "writeFile f j p = p\<lparr>files := (files p)(f \<mapsto> Json j)\<rparr>"

section \<open>Loading and saving\<close>

text \<open>
  \<^verbatim>\<open>loadConfig\<close>: the parsed file spread over the defaults; the defaults alone when the
  file is missing or does not parse.
\<close>

definition loadConfig :: "process \<Rightarrow> obj" where
  "loadConfig p =
     (case files p CONFIG_FILE of
        Some (Json config) \<Rightarrow> spread DEFAULT_CONFIG (own_entries config)
      | _ \<Rightarrow> DEFAULT_CONFIG)"

definition saveConfig :: "jsvalue \<Rightarrow> process \<Rightarrow> process" where
  "saveConfig config p = writeFile CONFIG_FILE (JSON_stringify config) p"

section \<open>The commands\<close>

text \<open>
  \<^verbatim>\<open>config get [key]\<close> with the options \<^verbatim>\<open>--all\<close> and \<^verbatim>\<open>--format\<close>. An absent key and the
  empty string are both falsy.
\<close>

definition config_get :: "string option \<Rightarrow> bool \<Rightarrow> string \<Rightarrow> process \<Rightarrow> process" where
  "config_get key all format p =
     (let config = loadConfig p;
          p1 = emit Spinner Configuration_loaded p
      in case key of
           None \<Rightarrow> emit Log (All_values format config) p1
         | Some k \<Rightarrow>
             if all \<or> k = [] then emit Log (All_values format config) p1
             else if \<not> has_property k config
             then emit Log (Available_keys (map fst config)) (emit Error (Key_not_found k) p1)
             else emit Log (Key_value format k (get_property config k)) p1)"

text \<open>
  Lines 211 to 228: the assignment, the save and the report of \<^verbatim>\<open>config set\<close>. The report
  comes after the save; how it renders the old and the new value (\<^verbatim>\<open>String(oldValue)\<close>, which
  throws on an object without a callable \<^verbatim>\<open>toString\<close>) is not modelled.
\<close>

definition set_and_save :: "string \<Rightarrow> value \<Rightarrow> obj \<Rightarrow> process \<Rightarrow> process" where
  "set_and_save key v config p =
     (let oldValue = get_property config key;
          config' = assign key v config
      in emit Spinner (Configuration_updated key oldValue v) (saveConfig (Object config') p))"

text \<open>\<^verbatim>\<open>config set <key> <value>\<close> with the option \<^verbatim>\<open>--force\<close>.\<close>

definition config_set :: "string \<Rightarrow> string \<Rightarrow> bool \<Rightarrow> process \<Rightarrow> process" where
  "config_set key raw force p =
     (let config = loadConfig p
      in if \<not> force
         then (case validateConfigValue key (Data (JStr raw)) of
                 Inl e \<Rightarrow> emit Error (Error_setting e) p
               | Inr (Invalid m) \<Rightarrow> emit Error (Validation_failed m) p
               | Inr (Valid v) \<Rightarrow> set_and_save key v config p)
         else set_and_save key (Data (JStr raw)) config p)"

text \<open>
  \<^verbatim>\<open>config reset\<close> with the options \<^verbatim>\<open>--key\<close> and \<^verbatim>\<open>--force\<close>; \<open>confirm\<close> is the answer
  the user gives when the prompt is shown.
\<close>

definition config_reset :: "string option \<Rightarrow> bool \<Rightarrow> bool \<Rightarrow> process \<Rightarrow> process" where
  "config_reset key force confirm p =
     (let config = loadConfig p
      in if key \<noteq> None \<and> key \<noteq> Some []
         then let k = the key
              in if \<not> has_property k DEFAULT_CONFIG then emit Error (Unknown_key k) p
                 else if \<not> force \<and> \<not> confirm then emit Log Operation_cancelled p
                 else let oldValue = get_property config k;
                          config' = assign k (get_property DEFAULT_CONFIG k) config
                      in emit Spinner (Key_reset k oldValue (get_property DEFAULT_CONFIG k))
                           (saveConfig (Object config') p)
         else if \<not> force \<and> \<not> confirm then emit Log Operation_cancelled p
         else emit Spinner Configuration_reset (saveConfig (Object DEFAULT_CONFIG) p))"

text \<open>\<^verbatim>\<open>config export [filename]\<close>; the command has no option.\<close>

definition config_export :: "path option \<Rightarrow> process \<Rightarrow> process" where
  "config_export filename p =
     (let exportPath = (case filename of None \<Rightarrow> ''./config-export.json'' | Some f \<Rightarrow> f);
          config = loadConfig p
      in emit Spinner (Configuration_exported exportPath (length config))
           (writeFile exportPath (JSON_stringify (Object config)) p))"

text \<open>
  Lines 427 to 433: every entry is validated and the message of each invalid one is kept;
  an exception thrown by a validator leaves the loop.
\<close>

fun validation_errors :: "obj \<Rightarrow> exn + (string \<times> message) list" where
  "validation_errors [] = Inr []"
| "validation_errors ((key, v) # rest) =
     (case validateConfigValue key v of
        Inl e \<Rightarrow> Inl e
      | Inr validation \<Rightarrow>
          (case validation_errors rest of
             Inl e \<Rightarrow> Inl e
           | Inr errors \<Rightarrow>
               Inr (case validation of
                      Invalid m \<Rightarrow> (key, m) # errors
                    | Valid _ \<Rightarrow> errors)))"

text \<open>\<^verbatim>\<open>Object.keys(x).length\<close> of what is saved.\<close>

fun key_count :: "jsvalue \<Rightarrow> nat" where
  "key_count (Object ob) = length ob"
| "key_count (Parsed j) = length (own_entries j)"

text \<open>
  \<^verbatim>\<open>config import <filename>\<close> with the options \<^verbatim>\<open>--merge\<close> and \<^verbatim>\<open>--force\<close>; \<open>confirm\<close> is
  the answer the user gives when the prompt is shown.
\<close>

definition config_import :: "path \<Rightarrow> bool \<Rightarrow> bool \<Rightarrow> bool \<Rightarrow> process \<Rightarrow> process" where
  "config_import importPath merge force confirm p =
     (case files p importPath of
        None \<Rightarrow> emit Error (File_not_found importPath) p
      | Some Unparseable \<Rightarrow> emit Error (Error_importing SyntaxError) p
      | Some (Json importConfig) \<Rightarrow>
          (case Object_entries importConfig of
             Inl e \<Rightarrow> emit Error (Error_importing e) p
           | Inr entries \<Rightarrow>
               (case validation_errors entries of
                  Inl e \<Rightarrow> emit Error (Error_importing e) p
                | Inr validationErrors \<Rightarrow>
                    if validationErrors \<noteq> [] \<and> \<not> force
                    then emit Log Use_force_hint
                           (foldl (\<lambda>q (k, m). emit Log (Validation_error k m) q)
                              (emit Spinner Validation_errors_found p) validationErrors)
                    else
                      let finalConfig =
                            (if merge then Object (spread (loadConfig p) (own_entries importConfig))
                             else Parsed importConfig)
                      in if \<not> force \<and> \<not> confirm then emit Log Operation_cancelled p
                         else emit Spinner
                                (Configuration_imported importPath merge
                                   (length (own_entries importConfig)) (key_count finalConfig))
                                (saveConfig finalConfig p))))"

section \<open>Documents\<close>

text \<open>
  A document is valid when it has the ten keys of the schema, in the order of the defaults,
  and every value satisfies the validator of its key (the value as it is stored).
\<close>

definition valid_document :: "obj \<Rightarrow> bool" where
  "valid_document d =
     (map fst d = map fst DEFAULT_CONFIG \<and>
      list_all (\<lambda>(k, v). case map_of validators k of Some validator \<Rightarrow> validator v | None \<Rightarrow> False) d)"

text \<open>An object all of whose properties hold data that JSON can write as it is.\<close>

definition all_data :: "obj \<Rightarrow> bool" where
  "all_data ob = list_all (\<lambda>(k, v). case v of Data _ \<Rightarrow> True | _ \<Rightarrow> False) ob"

section \<open>Basic facts\<close>

lemma files_emit [simp]: "files (emit st out p) = files p"
  by (simp add: emit_def)

lemma exit_code_emit [simp]: "exit_code (emit st out p) = exit_code p"
  by (simp add: emit_def)

lemma console_emit [simp]: "console (emit st out p) = console p @ [(st, out)]"
  by (simp add: emit_def)

lemma files_writeFile [simp]: "files (writeFile f j p) = (files p)(f \<mapsto> Json j)"
  by (simp add: writeFile_def)

lemma exit_code_writeFile [simp]: "exit_code (writeFile f j p) = exit_code p"
  by (simp add: writeFile_def)

lemma console_writeFile [simp]: "console (writeFile f j p) = console p"
  by (simp add: writeFile_def)

lemma files_saveConfig [simp]:
  "files (saveConfig c p) = (files p)(CONFIG_FILE \<mapsto> Json (JSON_stringify c))"
  by (simp add: saveConfig_def)

lemma exit_code_saveConfig [simp]: "exit_code (saveConfig c p) = exit_code p"
  by (simp add: saveConfig_def)

lemma console_saveConfig [simp]: "console (saveConfig c p) = console p"
  by (simp add: saveConfig_def)

text \<open>The two tables have the same keys.\<close>

lemma suggestions_keys: "(map_of suggestions key = None) = (map_of validators key = None)"
  by (simp add: validators_def suggestions_def)

lemma not_whitespace_t: "\<not> is_whitespace CHR ''t''"
  by (simp add: is_whitespace_def)

lemma not_whitespace_f: "\<not> is_whitespace CHR ''f''"
  by (simp add: is_whitespace_def)

lemma whitespace_trim: "list_all is_whitespace s \<Longrightarrow> trim_start s = []"
  by (simp add: trim_start_def list_all_iff)

lemma whitespace_not_true: "list_all is_whitespace s \<Longrightarrow> s \<noteq> ''true''"
  using not_whitespace_t by (cases s) auto

lemma whitespace_not_false: "list_all is_whitespace s \<Longrightarrow> s \<noteq> ''false''"
  using not_whitespace_f by (cases s) auto

text \<open>\<^verbatim>\<open>parseInt\<close> yields an integer, \<^verbatim>\<open>NaN\<close> or an infinity.\<close>

lemma number_of_integer_cases:
  "(\<exists>n::int. number_of_integer i = Data (JNum (of_int n))) \<or> (\<exists>x. number_of_integer i = NonFinite x)"
  by (simp add: number_of_integer_def flip: of_int_mult)

lemma parseInt_cases:
  "(\<exists>n::int. parseInt s = Data (JNum (of_int n))) \<or> (\<exists>x. parseInt s = NonFinite x)"
  unfolding parseInt_def Let_def using number_of_integer_cases by (simp split: if_split)

declare own_entries.simps [simp del]


lemma map_of_define_property: "map_of (define_property k v ob) = (map_of ob)(k \<mapsto> v)"
  by (induction k v ob rule: define_property.induct) (auto simp: fun_eq_iff)

lemma keys_define_property:
  "fst ` set (define_property k v ob) = insert k (fst ` set ob)"
  by (induction k v ob rule: define_property.induct) auto

lemma distinct_define_property:
  "distinct (map fst ob) \<Longrightarrow> distinct (map fst (define_property k v ob))"
proof (induction k v ob rule: define_property.induct)
  case (1 k v)
  then show ?case by simp
next
  case (2 k v k' v' ob)
  with keys_define_property[of k v ob] show ?case by auto
qed

lemma all_data_define_property:
  "all_data ob \<Longrightarrow> all_data (define_property k (Data j) ob)"
  by (induction k "Data j" ob rule: define_property.induct) (auto simp: all_data_def)

lemma spread_Nil [simp]: "spread a [] = a"
  by (simp add: spread_def)

lemma spread_Cons [simp]: "spread a ((k, v) # b) = spread (define_property k v a) b"
  by (simp add: spread_def)

lemma spread_snoc: "spread a (b @ [(k, v)]) = define_property k v (spread a b)"
  by (simp add: spread_def)

lemma map_of_spread: "map_of (spread a b) = map_of a ++ map_of (rev b)"
proof (induction b arbitrary: a)
  case Nil
  show ?case by simp
next
  case (Cons x b)
  obtain k v where x: "x = (k, v)" by (cases x)
  show ?case
  proof (rule ext)
    fix y
    show "map_of (spread a (x # b)) y = (map_of a ++ map_of (rev (x # b))) y"
      by (simp add: x Cons.IH map_of_define_property map_add_def split: option.splits)
  qed
qed

lemma keys_spread: "fst ` set (spread a b) = fst ` set a \<union> fst ` set b"
proof (induction b arbitrary: a)
  case Nil
  show ?case by simp
next
  case (Cons x b)
  obtain k v where x: "x = (k, v)" by (cases x)
  show ?case using Cons.IH[of "define_property k v a"] keys_define_property[of k v a]
    by (auto simp: x)
qed

lemma distinct_spread: "distinct (map fst a) \<Longrightarrow> distinct (map fst (spread a b))"
proof (induction b arbitrary: a)
  case Nil
  then show ?case by simp
next
  case (Cons x b)
  obtain k v where x: "x = (k, v)" by (cases x)
  show ?case using Cons.IH[OF distinct_define_property[OF Cons.prems]] by (simp add: x)
qed

lemma all_data_spread: "all_data a \<Longrightarrow> all_data b \<Longrightarrow> all_data (spread a b)"
proof (induction b arbitrary: a)
  case Nil
  then show ?case by simp
next
  case (Cons x b)
  from Cons.prems(2) obtain k j where x: "x = (k, Data j)" and b: "all_data b"
    by (cases x; cases "snd x") (auto simp: all_data_def)
  show ?case using Cons.IH[OF all_data_define_property[OF Cons.prems(1)] b] by (simp add: x)
qed

lemma map_of_rev_distinct: "distinct (map fst xs) \<Longrightarrow> map_of (rev xs) = map_of xs"
proof (induction xs)
  case Nil
  show ?case by simp
next
  case (Cons x xs)
  obtain k v where x: "x = (k, v)" by (cases x)
  from Cons.prems have "map_of xs k = None" by (simp add: x map_of_eq_None_iff)
  then have "[k \<mapsto> v] ++ map_of xs = (map_of xs)(k \<mapsto> v)"
    by (auto simp: fun_eq_iff map_add_def split: option.splits)
  with Cons show ?case by (simp add: x)
qed

lemma all_data_own_entries: "all_data (own_entries j)"
  by (cases j) (auto simp: all_data_def list_all_iff own_entries.simps)

lemma all_data_DEFAULT_CONFIG: "all_data DEFAULT_CONFIG"
  by (simp add: all_data_def DEFAULT_CONFIG_def)

lemma distinct_DEFAULT_CONFIG: "distinct (map fst DEFAULT_CONFIG)"
  by (simp add: DEFAULT_CONFIG_def)

lemma all_data_loadConfig: "all_data (loadConfig p)"
  by (auto simp: loadConfig_def all_data_DEFAULT_CONFIG all_data_own_entries all_data_spread
           split: option.splits content.splits)

lemma distinct_loadConfig: "distinct (map fst (loadConfig p))"
  by (auto simp: loadConfig_def distinct_DEFAULT_CONFIG distinct_spread
           split: option.splits content.splits)

lemma own_entries_stringify: "all_data ob \<Longrightarrow> own_entries (JSON_stringify (Object ob)) = ob"
proof (induction ob)
  case Nil
  show ?case by (simp add: own_entries.simps)
next
  case (Cons x ob)
  from Cons.prems obtain k j where x: "x = (k, Data j)" and ob: "all_data ob"
    by (cases x; cases "snd x") (auto simp: all_data_def)
  from Cons.IH[OF ob] show ?case by (simp add: x own_entries.simps)
qed

lemma map_of_stringify:
  "all_data ob \<Longrightarrow>
     map_of (List.map_filter stringify_property ob) k =
       (case map_of ob k of Some (Data j) \<Rightarrow> Some j | _ \<Rightarrow> None)"
proof (induction ob)
  case Nil
  show ?case by simp
next
  case (Cons x ob)
  from Cons.prems obtain k' j where x: "x = (k', Data j)" and ob: "all_data ob"
    by (cases x; cases "snd x") (auto simp: all_data_def)
  from Cons.IH[OF ob] show ?case by (simp add: x)
qed

lemma keys_stringify:
  "all_data ob \<Longrightarrow> map fst (List.map_filter stringify_property ob) = map fst ob"
proof (induction ob)
  case Nil
  show ?case by simp
next
  case (Cons x ob)
  from Cons.prems obtain k j where x: "x = (k, Data j)" and ob: "all_data ob"
    by (cases x; cases "snd x") (auto simp: all_data_def)
  from Cons.IH[OF ob] show ?case by (simp add: x)
qed


lemma map_of_own_entries: "map_of (own_entries (JObj m)) k = map_option Data (map_of m k)"
  by (induction m) (auto simp: own_entries.simps)

lemma keys_own_entries: "map fst (own_entries (JObj m)) = map fst m"
  by (induction m) (auto simp: own_entries.simps)

lemma map_of_loadConfig_absorb:
  "map_of DEFAULT_CONFIG ++ map_of (loadConfig p) = map_of (loadConfig p)"
  by (auto simp: loadConfig_def map_of_spread fun_eq_iff map_add_def
           split: option.splits content.splits)

lemma loadConfig_saved:
  "all_data ob \<Longrightarrow> loadConfig (saveConfig (Object ob) p) = spread DEFAULT_CONFIG ob"
  using own_entries_stringify[of ob] by (simp add: loadConfig_def)

lemma loadConfig_file:
  "files p CONFIG_FILE = Some (Json j) \<Longrightarrow> loadConfig p = spread DEFAULT_CONFIG (own_entries j)"
  by (simp add: loadConfig_def)

lemma loadConfig_emit [simp]: "loadConfig (emit st out p) = loadConfig p"
  by (simp add: loadConfig_def)

lemma loadConfig_keys: "fst ` set DEFAULT_CONFIG \<subseteq> fst ` set (loadConfig p)"
  by (auto simp: loadConfig_def keys_spread split: option.splits content.splits)

lemma define_property_append_in:
  "k \<in> fst ` set xs \<Longrightarrow> define_property k v (xs @ ys) = define_property k v xs @ ys"
  by (induction k v xs rule: define_property.induct) auto

lemma define_property_append_notin:
  "k \<notin> fst ` set xs \<Longrightarrow> define_property k v (xs @ ys) = xs @ define_property k v ys"
  by (induction k v xs rule: define_property.induct) auto

lemma define_property_same_keys:
  "k \<in> fst ` set xs \<Longrightarrow> map fst (define_property k v xs) = map fst xs"
  by (induction k v xs rule: define_property.induct) auto

lemma spread_append: "spread a (b @ c) = spread (spread a b) c"
  by (simp add: spread_def)

lemma spread_shape: "\<exists>a' ext. spread a b = a' @ ext \<and> map fst a' = map fst a"
proof (induction b rule: rev_induct)
  case Nil
  have "spread a [] = a @ [] \<and> map fst a = map fst a" by simp
  then show ?case by blast
next
  case (snoc x b)
  obtain k v where x: "x = (k, v)" by (cases x)
  from snoc obtain a' ext where s: "spread a b = a' @ ext" and m: "map fst a' = map fst a"
    by blast
  have e: "spread a (b @ [x]) = define_property k v (a' @ ext)"
    by (simp add: x spread_snoc s)
  show ?case
  proof (cases "k \<in> fst ` set a'")
    case True
    then have "spread a (b @ [x]) = define_property k v a' @ ext"
      by (simp add: e define_property_append_in)
    moreover from True m have "map fst (define_property k v a') = map fst a"
      by (simp add: define_property_same_keys)
    ultimately show ?thesis by blast
  next
    case False
    then have "spread a (b @ [x]) = a' @ define_property k v ext"
      by (simp add: e define_property_append_notin)
    with m show ?thesis by blast
  qed
qed

lemma spread_same_keys:
  "distinct (map fst (pre @ ys)) \<Longrightarrow> map fst ys = map fst zs \<Longrightarrow> spread (pre @ zs) ys = pre @ ys"
proof (induction ys arbitrary: pre zs)
  case Nil
  then show ?case by simp
next
  case (Cons y ys)
  obtain k v where y: "y = (k, v)" by (cases y)
  from Cons.prems(2) obtain v0 zs' where zs: "zs = (k, v0) # zs'" and m: "map fst ys = map fst zs'"
    by (cases zs) (auto simp: y)
  from Cons.prems(1) have k: "k \<notin> fst ` set pre" by (auto simp: y)
  have "spread (pre @ zs) (y # ys) = spread ((pre @ [(k, v)]) @ zs') ys"
    by (simp add: y zs define_property_append_notin[OF k])
  also have "\<dots> = (pre @ [(k, v)]) @ ys"
    using Cons.prems(1) by (intro Cons.IH[OF _ m]) (simp add: y)
  finally show ?case by (simp add: y)
qed

lemma spread_new_keys: "distinct (map fst (a @ ext)) \<Longrightarrow> spread a ext = a @ ext"
proof (induction ext arbitrary: a)
  case Nil
  show ?case by simp
next
  case (Cons x ext)
  obtain k v where x: "x = (k, v)" by (cases x)
  from Cons.prems have k: "k \<notin> fst ` set a" by (auto simp: x)
  from define_property_append_notin[OF k, of v "[]"]
  have d: "define_property k v a = a @ [(k, v)]" by simp
  have "spread (a @ [(k, v)]) ext = (a @ [(k, v)]) @ ext"
    using Cons.prems by (intro Cons.IH) (simp add: x)
  then show ?case by (simp add: x d)
qed

lemma spread_idem: "distinct (map fst a) \<Longrightarrow> spread a (spread a b) = spread a b"
proof -
  assume d: "distinct (map fst a)"
  obtain a' ext where s: "spread a b = a' @ ext" and m: "map fst a' = map fst a"
    using spread_shape by blast
  from distinct_spread[OF d, of b] have dd: "distinct (map fst (a' @ ext))" by (simp add: s)
  then have "distinct (map fst ([] @ a'))" by simp
  from spread_same_keys[OF this m] have "spread a a' = a'" by simp
  then have "spread a (a' @ ext) = spread a' ext" by (simp add: spread_append)
  also have "\<dots> = a' @ ext" by (rule spread_new_keys[OF dd])
  finally show ?thesis by (simp add: s)
qed

lemma loadConfig_idem: "spread DEFAULT_CONFIG (loadConfig p) = loadConfig p"
proof -
  from spread_idem[OF distinct_DEFAULT_CONFIG, of "[]"]
  have "spread DEFAULT_CONFIG DEFAULT_CONFIG = DEFAULT_CONFIG" by simp
  then show ?thesis
    by (auto simp: loadConfig_def spread_idem[OF distinct_DEFAULT_CONFIG]
             split: option.splits content.splits)
qed

lemma console_foldl_emit:
  "console (foldl (\<lambda>q (k, m). emit Log (Validation_error k m) q) q0 errs) =
     console q0 @ map (\<lambda>(k, m). (Log, Validation_error k m)) errs"
  by (induction errs arbitrary: q0) (auto simp: case_prod_beta)

lemma files_foldl_emit:
  "files (foldl (\<lambda>q (k, m). emit Log (Validation_error k m) q) q0 errs) = files q0"
  by (induction errs arbitrary: q0) (auto simp: case_prod_beta)

lemma exit_code_foldl_emit:
  "exit_code (foldl (\<lambda>q (k, m). emit Log (Validation_error k m) q) q0 errs) = exit_code q0"
  by (induction errs arbitrary: q0) (auto simp: case_prod_beta)

lemma validation_errors_collect:
  "validation_errors entries = Inr errors \<Longrightarrow>
     errors = concat (map (\<lambda>(k, v). case validateConfigValue k v of
                                       Inr (Invalid m) \<Rightarrow> [(k, m)] | _ \<Rightarrow> []) entries)"
  by (induction entries arbitrary: errors rule: validation_errors.induct)
     (auto split: sum.splits validation.splits)

lemma import_applied:
  assumes "files p f = Some (Json (JObj m))"
    and "validation_errors (own_entries (JObj m)) = Inr errors"
    and "errors = [] \<or> force" and "force \<or> confirm"
  shows "config_import f mg force confirm p =
           emit Spinner
             (Configuration_imported f mg (length (own_entries (JObj m)))
                (key_count (if mg then Object (spread (loadConfig p) (own_entries (JObj m)))
                            else Parsed (JObj m))))
             (saveConfig (if mg then Object (spread (loadConfig p) (own_entries (JObj m)))
                          else Parsed (JObj m)) p)"
  using assms by (auto simp: config_import_def Object_entries_def Let_def)

lemma map_of_assign:
  "key \<noteq> ''__proto__'' \<Longrightarrow> map_of (assign key v ob) = (map_of ob)(key \<mapsto> v)"
  by (simp add: assign_def map_of_define_property)

lemma all_data_assign: "all_data ob \<Longrightarrow> all_data (assign key (Data j) ob)"
  by (simp add: assign_def all_data_define_property)

lemma exit_code_config_get: "exit_code (config_get key all format p) = exit_code p"
  by (simp add: config_get_def Let_def split: option.splits)

lemma exit_code_config_set: "exit_code (config_set key raw force p) = exit_code p"
  by (simp add: config_set_def set_and_save_def Let_def split: sum.splits validation.splits)

lemma exit_code_config_reset: "exit_code (config_reset key force confirm p) = exit_code p"
  by (simp add: config_reset_def Let_def)

lemma exit_code_config_export: "exit_code (config_export filename p) = exit_code p"
  by (simp add: config_export_def Let_def)

lemma exit_code_config_import: "exit_code (config_import f mg force confirm p) = exit_code p"
  by (simp add: config_import_def Let_def exit_code_foldl_emit
           split: option.splits content.splits sum.splits)

section \<open>Coercion and validation\<close>

text \<open>
  Claim C10. The numeric branch of the conversion is taken only when neither
  \<^verbatim>\<open>Number(value)\<close> nor \<^verbatim>\<open>parseFloat(value)\<close> is \<^verbatim>\<open>NaN\<close>, and the converted value is then
  \<^verbatim>\<open>parseInt\<close> of the string, which cuts a fraction off: \<^verbatim>\<open>"99.9"\<close> is accepted for
  \<^verbatim>\<open>maxItems\<close> with the value 99. The empty string and every string of white space pass
  the \<^verbatim>\<open>Number\<close> test but not the \<^verbatim>\<open>parseFloat\<close> test, stay strings, and are rejected by
  the integer validator instead of becoming 0.
\<close>

theorem numeric_coercion_branch:
  "convert (Data (JStr s)) =
     (if s = ''true'' then Data (JBool True)
      else if s = ''false'' then Data (JBool False)
      else if \<not> Number_isNaN s \<and> \<not> parseFloat_isNaN s then parseInt s
      else Data (JStr s))
   \<and> validateConfigValue ''maxItems'' (Data (JStr ''99.9'')) = Inr (Valid (Data (JNum 99)))
   \<and> (list_all is_whitespace s \<longrightarrow>
        \<not> Number_isNaN s \<and> parseFloat_isNaN s \<and> convert (Data (JStr s)) = Data (JStr s) \<and>
        validateConfigValue ''maxItems'' (Data (JStr s)) =
          Inr (Invalid (Text ''Must be a number between 1 and 1000'')))"
proof (intro conjI impI)
  show "convert (Data (JStr s)) =
     (if s = ''true'' then Data (JBool True)
      else if s = ''false'' then Data (JBool False)
      else if \<not> Number_isNaN s \<and> \<not> parseFloat_isNaN s then parseInt s
      else Data (JStr s))"
    by (simp add: convert_def)
  show "validateConfigValue ''maxItems'' (Data (JStr ''99.9'')) = Inr (Valid (Data (JNum 99)))"
    by code_simp
next
  assume ws: "list_all is_whitespace s"
  show "\<not> Number_isNaN s"
    using whitespace_trim[OF ws] by (simp add: Number_isNaN_def trim_end_def)
  show nan: "parseFloat_isNaN s"
    using whitespace_trim[OF ws] by (simp add: parseFloat_isNaN_def)
  show conv: "convert (Data (JStr s)) = Data (JStr s)"
    using nan whitespace_not_true[OF ws] whitespace_not_false[OF ws] by (simp add: convert_def)
  show "validateConfigValue ''maxItems'' (Data (JStr s)) =
          Inr (Invalid (Text ''Must be a number between 1 and 1000''))"
    by (simp add: validateConfigValue_def validators_def suggestions_def conv integer_in_def)
qed

text \<open>The white-space case of C10 at a blank followed by a tab.\<close>

theorem numeric_coercion_branch_witness:
  "list_all is_whitespace [CHR 0x20, CHR 0x09] \<and>
   validateConfigValue ''maxItems'' (Data (JStr [CHR 0x20, CHR 0x09])) =
     Inr (Invalid (Text ''Must be a number between 1 and 1000''))"
  using numeric_coercion_branch [of "[CHR 0x20, CHR 0x09]"] by (simp add: is_whitespace_def)

text \<open>
  Claim C7 as stated does not hold: a string that \<^verbatim>\<open>Number\<close> parses as a number is not
  always converted to an integer. The empty string parses as 0 and is not converted at all;
  \<^verbatim>\<open>".5"\<close> parses as a number under both tests and is converted to \<^verbatim>\<open>NaN\<close>.
\<close>

theorem coercion_counterexample:
  "\<not> Number_isNaN [] \<and> convert (Data (JStr [])) = Data (JStr []) \<and>
   \<not> Number_isNaN ''.5'' \<and> \<not> parseFloat_isNaN ''.5'' \<and>
   convert (Data (JStr ''.5'')) = NonFinite NaN"
  by code_simp

text \<open>
  Claim C7, amended. For every key of the schema the validator is applied to the converted
  value: \<^verbatim>\<open>"true"\<close> and \<^verbatim>\<open>"false"\<close> become the booleans, and any other string for which
  neither \<^verbatim>\<open>Number\<close> nor \<^verbatim>\<open>parseFloat\<close> gives \<^verbatim>\<open>NaN\<close> becomes \<^verbatim>\<open>parseInt\<close> of the string,
  which is an integer, \<^verbatim>\<open>NaN\<close> or an infinity. Setting \<^verbatim>\<open>maxItems\<close> to \<^verbatim>\<open>"150"\<close> converts
  the string to the integer 150, which the validator accepts, and the command goes on to
  assign and save it.
\<close>

theorem coercion_before_validation:
  "map_of validators key = Some validator \<Longrightarrow>
     convert (Data (JStr ''true'')) = Data (JBool True) \<and>
     convert (Data (JStr ''false'')) = Data (JBool False) \<and>
     (s \<noteq> ''true'' \<and> s \<noteq> ''false'' \<and> \<not> Number_isNaN s \<and> \<not> parseFloat_isNaN s \<longrightarrow>
        convert (Data (JStr s)) = parseInt s \<and>
        ((\<exists>n::int. parseInt s = Data (JNum (of_int n))) \<or> (\<exists>x. parseInt s = NonFinite x))) \<and>
     (\<exists>m. map_of suggestions key = Some m \<and>
          validateConfigValue key v =
            (if validator (convert v) then Inr (Valid (convert v)) else Inr (Invalid (Text m)))) \<and>
     validateConfigValue ''maxItems'' (Data (JStr ''150'')) = Inr (Valid (Data (JNum 150))) \<and>
     config_set ''maxItems'' ''150'' False p =
       set_and_save ''maxItems'' (Data (JNum 150)) (loadConfig p) p"
proof (intro conjI impI)
  assume v: "map_of validators key = Some validator"
  show "convert (Data (JStr ''true'')) = Data (JBool True)"
    by (simp add: convert_def)
  show "convert (Data (JStr ''false'')) = Data (JBool False)"
    by (simp add: convert_def)
  from v suggestions_keys[of key] obtain m where m: "map_of suggestions key = Some m"
    by auto
  show "\<exists>m. map_of suggestions key = Some m \<and>
          validateConfigValue key v =
            (if validator (convert v) then Inr (Valid (convert v)) else Inr (Invalid (Text m)))"
    using v m by (simp add: validateConfigValue_def)
  show ok: "validateConfigValue ''maxItems'' (Data (JStr ''150'')) = Inr (Valid (Data (JNum 150)))"
    by code_simp
  show "config_set ''maxItems'' ''150'' False p =
       set_and_save ''maxItems'' (Data (JNum 150)) (loadConfig p) p"
    by (simp add: config_set_def ok)
next
  assume "s \<noteq> ''true'' \<and> s \<noteq> ''false'' \<and> \<not> Number_isNaN s \<and> \<not> parseFloat_isNaN s"
  then show "convert (Data (JStr s)) = parseInt s"
    by (simp add: convert_def)
  show "(\<exists>n::int. parseInt s = Data (JNum (of_int n))) \<or> (\<exists>x. parseInt s = NonFinite x)"
    by (rule parseInt_cases)
qed

text \<open>The amended C7 at the key \<^verbatim>\<open>maxItems\<close> and the string \<^verbatim>\<open>"150"\<close>.\<close>

theorem coercion_before_validation_witness:
  "map_of validators ''maxItems'' = Some (integer_in 0 (Some 1000)) \<and>
   ''150'' \<noteq> ''true'' \<and> ''150'' \<noteq> ''false'' \<and> \<not> Number_isNaN ''150'' \<and> \<not> parseFloat_isNaN ''150'' \<and>
   convert (Data (JStr ''150'')) = parseInt ''150'' \<and>
   validateConfigValue ''maxItems'' (Data (JStr ''150'')) = Inr (Valid (Data (JNum 150)))"
proof -
  have h: "map_of validators ''maxItems'' = Some (integer_in 0 (Some 1000))"
    by (simp add: validators_def)
  have n: "''150'' \<noteq> ''true'' \<and> ''150'' \<noteq> ''false'' \<and> \<not> Number_isNaN ''150'' \<and> \<not> parseFloat_isNaN ''150''"
    by code_simp
  from coercion_before_validation [OF h, of "''150''"] n
  have "convert (Data (JStr ''150'')) = parseInt ''150''"
    and "validateConfigValue ''maxItems'' (Data (JStr ''150'')) = Inr (Valid (Data (JNum 150)))"
    by blast+
  with h n show ?thesis by blast
qed

section \<open>Rejection by \<^verbatim>\<open>config set\<close>\<close>




section \<open>Loading\<close>

text \<open>
  Claim C5. When the stored document is an object, every key it holds keeps its stored value
  in the loaded document and every other key has the value of the defaults; in particular a
  stored document with a subset of the schema keys loads to a document in which those keys
  retain their values. Whatever the file holds, every key of the schema has a value in the
  loaded document. When the file is missing or does not parse, \<^verbatim>\<open>loadConfig\<close> returns the
  defaults.
\<close>

theorem load_defaulting:
  "(files p CONFIG_FILE = Some (Json (JObj stored)) \<and> distinct (map fst stored) \<longrightarrow>
      (\<forall>(k, j) \<in> set stored. map_of (loadConfig p) k = Some (Data j)) \<and>
      (\<forall>k. k \<notin> set (map fst stored) \<longrightarrow> map_of (loadConfig p) k = map_of DEFAULT_CONFIG k))
   \<and> (\<forall>k \<in> set (map fst DEFAULT_CONFIG). \<exists>v. map_of (loadConfig p) k = Some v)
   \<and> ((\<forall>j. files p CONFIG_FILE \<noteq> Some (Json j)) \<longrightarrow> loadConfig p = DEFAULT_CONFIG)"
proof (intro conjI impI)
  assume a: "files p CONFIG_FILE = Some (Json (JObj stored)) \<and> distinct (map fst stored)"
  then have d: "distinct (map fst (own_entries (JObj stored)))"
    by (simp add: keys_own_entries)
  from a have l: "map_of (loadConfig p) = map_of DEFAULT_CONFIG ++ map_of (own_entries (JObj stored))"
    by (simp add: loadConfig_def map_of_spread map_of_rev_distinct[OF d])
  show "\<forall>(k, j) \<in> set stored. map_of (loadConfig p) k = Some (Data j)"
  proof (clarify)
    fix k j assume "(k, j) \<in> set stored"
    with a have "map_of stored k = Some j" by simp
    then show "map_of (loadConfig p) k = Some (Data j)"
      by (simp add: l map_of_own_entries)
  qed
  show "\<forall>k. k \<notin> set (map fst stored) \<longrightarrow> map_of (loadConfig p) k = map_of DEFAULT_CONFIG k"
  proof (intro allI impI)
    fix k assume "k \<notin> set (map fst stored)"
    then have "map_of stored k = None" by (simp add: map_of_eq_None_iff)
    then show "map_of (loadConfig p) k = map_of DEFAULT_CONFIG k"
      by (simp add: l map_add_def map_of_own_entries)
  qed
next
  show "\<forall>k \<in> set (map fst DEFAULT_CONFIG). \<exists>v. map_of (loadConfig p) k = Some v"
  proof
    fix k assume "k \<in> set (map fst DEFAULT_CONFIG)"
    with loadConfig_keys[of p] have "k \<in> fst ` set (loadConfig p)" by auto
    then have "map_of (loadConfig p) k \<noteq> None" by (simp add: map_of_eq_None_iff)
    then show "\<exists>v. map_of (loadConfig p) k = Some v" by auto
  qed
next
  assume "\<forall>j. files p CONFIG_FILE \<noteq> Some (Json j)"
  then show "loadConfig p = DEFAULT_CONFIG"
    by (auto simp: loadConfig_def split: option.splits content.splits)
qed

text \<open>
  C5 on a file that stores \<^verbatim>\<open>theme\<close> alone, on a file that does not parse, and on a missing
  file.
\<close>

theorem load_defaulting_witness:
  "files (start [CONFIG_FILE \<mapsto> Json (JObj [(''theme'', JStr ''dark'')])]) CONFIG_FILE =
     Some (Json (JObj [(''theme'', JStr ''dark'')])) \<and>
   distinct (map fst [(''theme'', JStr ''dark'')]) \<and>
   (''theme'', JStr ''dark'') \<in> set [(''theme'', JStr ''dark'')] \<and>
   map_of (loadConfig (start [CONFIG_FILE \<mapsto> Json (JObj [(''theme'', JStr ''dark'')])])) ''theme'' =
     Some (Data (JStr ''dark'')) \<and>
   ''maxItems'' \<notin> set (map fst [(''theme'', JStr ''dark'')]) \<and>
   map_of (loadConfig (start [CONFIG_FILE \<mapsto> Json (JObj [(''theme'', JStr ''dark'')])])) ''maxItems'' =
     Some (Data (JNum 100)) \<and>
   ''debug'' \<in> set (map fst DEFAULT_CONFIG) \<and>
   (\<exists>v. map_of (loadConfig (start [CONFIG_FILE \<mapsto> Json (JObj [(''theme'', JStr ''dark'')])])) ''debug'' =
          Some v) \<and>
   (\<forall>j. files (start [CONFIG_FILE \<mapsto> Unparseable]) CONFIG_FILE \<noteq> Some (Json j)) \<and>
   loadConfig (start [CONFIG_FILE \<mapsto> Unparseable]) = DEFAULT_CONFIG \<and>
   (\<forall>j. files (start Map.empty) CONFIG_FILE \<noteq> Some (Json j)) \<and>
   loadConfig (start Map.empty) = DEFAULT_CONFIG"
proof -
  let ?P = "start [CONFIG_FILE \<mapsto> Json (JObj [(''theme'', JStr ''dark'')])]"
  have h: "files ?P CONFIG_FILE = Some (Json (JObj [(''theme'', JStr ''dark'')])) \<and>
           distinct (map fst [(''theme'', JStr ''dark'')])"
    by (simp add: start_def)
  have d: "map_of DEFAULT_CONFIG ''maxItems'' = Some (Data (JNum 100))"
    and k: "''debug'' \<in> set (map fst DEFAULT_CONFIG)"
    by (simp_all add: DEFAULT_CONFIG_def)
  have u: "\<forall>j. files (start [CONFIG_FILE \<mapsto> Unparseable]) CONFIG_FILE \<noteq> Some (Json j)"
    and e: "\<forall>j. files (start Map.empty) CONFIG_FILE \<noteq> Some (Json j)"
    by (simp_all add: start_def)
  from load_defaulting [of ?P "[(''theme'', JStr ''dark'')]"] h
  have A: "\<forall>(k, j) \<in> set [(''theme'', JStr ''dark'')]. map_of (loadConfig ?P) k = Some (Data j)"
    and B: "\<forall>k. k \<notin> set (map fst [(''theme'', JStr ''dark'')]) \<longrightarrow>
               map_of (loadConfig ?P) k = map_of DEFAULT_CONFIG k"
    and C: "\<forall>k \<in> set (map fst DEFAULT_CONFIG). \<exists>v. map_of (loadConfig ?P) k = Some v"
    by blast+
  from A have "map_of (loadConfig ?P) ''theme'' = Some (Data (JStr ''dark''))"
    by simp
  moreover from B d have "map_of (loadConfig ?P) ''maxItems'' = Some (Data (JNum 100))"
    by simp
  moreover from C k have "\<exists>v. map_of (loadConfig ?P) ''debug'' = Some v"
    by blast
  moreover from load_defaulting [of "start [CONFIG_FILE \<mapsto> Unparseable]"] u
  have "loadConfig (start [CONFIG_FILE \<mapsto> Unparseable]) = DEFAULT_CONFIG"
    by blast
  moreover from load_defaulting [of "start Map.empty"] e
  have "loadConfig (start Map.empty) = DEFAULT_CONFIG"
    by blast
  ultimately show ?thesis
    using h k u e by simp
qed


section \<open>Import\<close>

text \<open>
  Claim C3. When the validation of the candidate entries yields one error or more and
  \<^verbatim>\<open>--force\<close> is not given, \<^verbatim>\<open>config import\<close> writes no file: the files after the command
  are the files before it. The command prints one line for each error, and the errors are
  the messages of all the invalid entries, in the order of the entries: the loop does not
  stop at the first one. More generally, without \<^verbatim>\<open>--force\<close> the command writes nothing
  unless the import file parses and all its entries are valid.
\<close>

theorem import_abort_atomic:
  "(files p f = Some (Json importConfig) \<and> Object_entries importConfig = Inr entries \<and>
    validation_errors entries = Inr errors \<and> errors \<noteq> [] \<longrightarrow>
      files (config_import f mg False confirm p) = files p \<and>
      console (config_import f mg False confirm p) =
        console p @ [(Spinner, Validation_errors_found)] @
        map (\<lambda>(k, m). (Log, Validation_error k m)) errors @ [(Log, Use_force_hint)] \<and>
      errors = concat (map (\<lambda>(k, v). case validateConfigValue k v of
                                        Inr (Invalid m) \<Rightarrow> [(k, m)] | _ \<Rightarrow> []) entries))
   \<and> (\<not> (\<exists>j entries. files p f = Some (Json j) \<and> Object_entries j = Inr entries \<and>
                        validation_errors entries = Inr []) \<longrightarrow>
        files (config_import f mg False confirm p) = files p)"
proof (intro conjI impI)
  assume a: "files p f = Some (Json importConfig) \<and> Object_entries importConfig = Inr entries \<and>
    validation_errors entries = Inr errors \<and> errors \<noteq> []"
  then have c: "config_import f mg False confirm p =
      emit Log Use_force_hint
        (foldl (\<lambda>q (k, m). emit Log (Validation_error k m) q)
           (emit Spinner Validation_errors_found p) errors)"
    by (simp add: config_import_def)
  show "files (config_import f mg False confirm p) = files p"
    by (simp add: c files_foldl_emit)
  show "console (config_import f mg False confirm p) =
        console p @ [(Spinner, Validation_errors_found)] @
        map (\<lambda>(k, m). (Log, Validation_error k m)) errors @ [(Log, Use_force_hint)]"
    by (simp add: c console_foldl_emit)
  from a show "errors = concat (map (\<lambda>(k, v). case validateConfigValue k v of
                                        Inr (Invalid m) \<Rightarrow> [(k, m)] | _ \<Rightarrow> []) entries)"
    by (intro validation_errors_collect) simp
next
  assume "\<not> (\<exists>j entries. files p f = Some (Json j) \<and> Object_entries j = Inr entries \<and>
                        validation_errors entries = Inr [])"
  then show "files (config_import f mg False confirm p) = files p"
    by (auto simp: config_import_def files_foldl_emit Let_def
             split: option.splits content.splits sum.splits)
qed

text \<open>
  C3 on the import of \<^verbatim>\<open>{"theme": "dark", "colorOutput": "notabool"}\<close> in merge mode: one
  error, for \<^verbatim>\<open>colorOutput\<close>, and no file written.
\<close>

theorem import_abort_atomic_witness:
  "files (start [''in.json'' \<mapsto>
       Json (JObj [(''theme'', JStr ''dark''), (''colorOutput'', JStr ''notabool'')])]) ''in.json'' =
     Some (Json (JObj [(''theme'', JStr ''dark''), (''colorOutput'', JStr ''notabool'')])) \<and>
   Object_entries (JObj [(''theme'', JStr ''dark''), (''colorOutput'', JStr ''notabool'')]) =
     Inr [(''theme'', Data (JStr ''dark'')), (''colorOutput'', Data (JStr ''notabool''))] \<and>
   validation_errors [(''theme'', Data (JStr ''dark'')), (''colorOutput'', Data (JStr ''notabool''))] =
     Inr [(''colorOutput'', Text ''Must be true or false'')] \<and>
   [(''colorOutput'', Text ''Must be true or false'')] \<noteq> [] \<and>
   \<not> (\<exists>j entries.
      files (start [''in.json'' \<mapsto>
        Json (JObj [(''theme'', JStr ''dark''), (''colorOutput'', JStr ''notabool'')])]) ''in.json'' =
        Some (Json j) \<and> Object_entries j = Inr entries \<and> validation_errors entries = Inr []) \<and>
   files (config_import ''in.json'' True False True
     (start [''in.json'' \<mapsto>
       Json (JObj [(''theme'', JStr ''dark''), (''colorOutput'', JStr ''notabool'')])])) =
     [''in.json'' \<mapsto> Json (JObj [(''theme'', JStr ''dark''), (''colorOutput'', JStr ''notabool'')])] \<and>
   console (config_import ''in.json'' True False True
     (start [''in.json'' \<mapsto>
       Json (JObj [(''theme'', JStr ''dark''), (''colorOutput'', JStr ''notabool'')])])) =
     [(Spinner, Validation_errors_found),
      (Log, Validation_error ''colorOutput'' (Text ''Must be true or false'')),
      (Log, Use_force_hint)]"
proof -
  let ?J = "JObj [(''theme'', JStr ''dark''), (''colorOutput'', JStr ''notabool'')]"
  let ?E = "[(''theme'', Data (JStr ''dark'')), (''colorOutput'', Data (JStr ''notabool''))]"
  let ?R = "[(''colorOutput'', Text ''Must be true or false'')]"
  let ?P = "start [''in.json'' \<mapsto> Json ?J]"
  have f: "files ?P ''in.json'' = Some (Json ?J)"
    by (simp add: start_def)
  have o: "Object_entries ?J = Inr ?E"
    by code_simp
  have v: "validation_errors ?E = Inr ?R"
    by code_simp
  have a: "\<not> (\<exists>j entries. files ?P ''in.json'' = Some (Json j) \<and> Object_entries j = Inr entries \<and>
                validation_errors entries = Inr [])"
  proof
    assume "\<exists>j entries. files ?P ''in.json'' = Some (Json j) \<and> Object_entries j = Inr entries \<and>
                validation_errors entries = Inr []"
    then obtain j entries where "files ?P ''in.json'' = Some (Json j)"
      and "Object_entries j = Inr entries" and e: "validation_errors entries = Inr []"
      by blast
    with f o have "entries = ?E" by simp
    with v e show False by simp
  qed
  from import_abort_atomic [of ?P "''in.json''" ?J ?E ?R True True] f o v
  have "files (config_import ''in.json'' True False True ?P) = files ?P"
    and "console (config_import ''in.json'' True False True ?P) =
           console ?P @ [(Spinner, Validation_errors_found)] @
           map (\<lambda>(k, m). (Log, Validation_error k m)) ?R @ [(Log, Use_force_hint)]"
    by blast+
  then show ?thesis
    using f o v a by (simp add: start_def)
qed

text \<open>
  Claim C2. Let the import file hold the object \<open>m\<close>, and let the import go through (the
  entries are valid or \<^verbatim>\<open>--force\<close> is given, and the user confirms or \<^verbatim>\<open>--force\<close> is given).
  After an import with \<^verbatim>\<open>--merge\<close> the saved and the loaded document map every key \<open>k\<close> to
  \<open>m[k]\<close> when \<open>k\<close> is in \<open>m\<close>, and to its value in the document loaded before the import
  otherwise. After
  an import without \<^verbatim>\<open>--merge\<close> the file holds \<open>m\<close> itself and the loaded document maps every
  key to \<open>m[k]\<close> when \<open>k\<close> is in \<open>m\<close>, and to the default of \<open>k\<close> otherwise.
\<close>

theorem import_merge_replace:
  "files p f = Some (Json (JObj m)) \<and> distinct (map fst m) \<and>
   validation_errors (own_entries (JObj m)) = Inr errors \<and>
   (errors = [] \<or> force) \<and> (force \<or> confirm) \<longrightarrow>
     map_of (loadConfig (config_import f True force confirm p)) k =
       (case map_of m k of Some j \<Rightarrow> Some (Data j) | None \<Rightarrow> map_of (loadConfig p) k) \<and>
     map_of (loadConfig (config_import f False force confirm p)) k =
       (case map_of m k of Some j \<Rightarrow> Some (Data j) | None \<Rightarrow> map_of DEFAULT_CONFIG k) \<and>
     files (config_import f False force confirm p) CONFIG_FILE = Some (Json (JObj m)) \<and>
     (\<exists>doc. files (config_import f True force confirm p) CONFIG_FILE = Some (Json (JObj doc)) \<and>
            map_of doc k =
              (case map_of m k of
                 Some j \<Rightarrow> Some j
               | None \<Rightarrow> (case map_of (loadConfig p) k of Some (Data j) \<Rightarrow> Some j | _ \<Rightarrow> None)))"
proof (intro impI conjI)
  assume a: "files p f = Some (Json (JObj m)) \<and> distinct (map fst m) \<and>
   validation_errors (own_entries (JObj m)) = Inr errors \<and>
   (errors = [] \<or> force) \<and> (force \<or> confirm)"
  then have f: "files p f = Some (Json (JObj m))"
    and v: "validation_errors (own_entries (JObj m)) = Inr errors"
    and e: "errors = [] \<or> force" and c: "force \<or> confirm"
    and d: "distinct (map fst (own_entries (JObj m)))"
    by (simp_all add: keys_own_entries)
  note ap = import_applied[OF f v e c]
  let ?M = "own_entries (JObj m)"
  let ?C = "loadConfig p"
  have ad: "all_data (spread ?C ?M)"
    by (intro all_data_spread all_data_loadConfig all_data_own_entries)
  have ds: "distinct (map fst (spread ?C ?M))"
    by (intro distinct_spread distinct_loadConfig)
  have "loadConfig (config_import f True force confirm p) = spread DEFAULT_CONFIG (spread ?C ?M)"
    by (simp add: ap[of True] loadConfig_saved[OF ad])
  then have "map_of (loadConfig (config_import f True force confirm p)) =
          (map_of DEFAULT_CONFIG ++ map_of ?C) ++ map_of ?M"
    by (simp add: map_of_spread map_of_rev_distinct[OF ds] map_of_rev_distinct[OF d])
  then have "map_of (loadConfig (config_import f True force confirm p)) = map_of ?C ++ map_of ?M"
    by (simp only: map_of_loadConfig_absorb)
  then show "map_of (loadConfig (config_import f True force confirm p)) k =
       (case map_of m k of Some j \<Rightarrow> Some (Data j) | None \<Rightarrow> map_of (loadConfig p) k)"
    by (simp add: map_add_def map_of_own_entries split: option.splits)
  have "loadConfig (config_import f False force confirm p) = spread DEFAULT_CONFIG ?M"
    by (simp add: ap[of False] loadConfig_def)
  then have "map_of (loadConfig (config_import f False force confirm p)) =
          map_of DEFAULT_CONFIG ++ map_of ?M"
    by (simp add: map_of_spread map_of_rev_distinct[OF d])
  then show "map_of (loadConfig (config_import f False force confirm p)) k =
       (case map_of m k of Some j \<Rightarrow> Some (Data j) | None \<Rightarrow> map_of DEFAULT_CONFIG k)"
    by (simp add: map_add_def map_of_own_entries split: option.splits)
  show "files (config_import f False force confirm p) CONFIG_FILE = Some (Json (JObj m))"
    by (simp add: ap[of False])
  have "files (config_import f True force confirm p) CONFIG_FILE =
          Some (Json (JObj (List.map_filter stringify_property (spread ?C ?M))))"
    by (simp add: ap[of True])
  moreover have "map_of (List.map_filter stringify_property (spread ?C ?M)) k =
          (case map_of m k of
             Some j \<Rightarrow> Some j
           | None \<Rightarrow> (case map_of (loadConfig p) k of Some (Data j) \<Rightarrow> Some j | _ \<Rightarrow> None))"
    by (simp add: map_of_stringify[OF ad] map_of_spread map_of_rev_distinct[OF d] map_add_def
          map_of_own_entries split: option.splits)
  ultimately show "\<exists>doc. files (config_import f True force confirm p) CONFIG_FILE = Some (Json (JObj doc)) \<and>
            map_of doc k =
              (case map_of m k of
                 Some j \<Rightarrow> Some j
               | None \<Rightarrow> (case map_of (loadConfig p) k of Some (Data j) \<Rightarrow> Some j | _ \<Rightarrow> None))"
    by blast
qed

text \<open>
  C2 with \<^verbatim>\<open>theme: dark, maxItems: 50\<close> stored and \<^verbatim>\<open>theme: light\<close> imported: \<^verbatim>\<open>maxItems\<close> stays
  50 under merge and reverts to 100 under replace.
\<close>

theorem import_merge_replace_witness:
  "files (start [CONFIG_FILE \<mapsto> Json (JObj [(''theme'', JStr ''dark''), (''maxItems'', JNum 50)]),
                 ''in.json'' \<mapsto> Json (JObj [(''theme'', JStr ''light'')])]) ''in.json'' =
     Some (Json (JObj [(''theme'', JStr ''light'')])) \<and>
   distinct (map fst [(''theme'', JStr ''light'')]) \<and>
   validation_errors (own_entries (JObj [(''theme'', JStr ''light'')])) = Inr [] \<and>
   map_of (loadConfig (config_import ''in.json'' True False True
      (start [CONFIG_FILE \<mapsto> Json (JObj [(''theme'', JStr ''dark''), (''maxItems'', JNum 50)]),
              ''in.json'' \<mapsto> Json (JObj [(''theme'', JStr ''light'')])]))) ''maxItems'' =
     Some (Data (JNum 50)) \<and>
   map_of (loadConfig (config_import ''in.json'' False False True
      (start [CONFIG_FILE \<mapsto> Json (JObj [(''theme'', JStr ''dark''), (''maxItems'', JNum 50)]),
              ''in.json'' \<mapsto> Json (JObj [(''theme'', JStr ''light'')])]))) ''maxItems'' =
     Some (Data (JNum 100)) \<and>
   files (config_import ''in.json'' False False True
      (start [CONFIG_FILE \<mapsto> Json (JObj [(''theme'', JStr ''dark''), (''maxItems'', JNum 50)]),
              ''in.json'' \<mapsto> Json (JObj [(''theme'', JStr ''light'')])])) CONFIG_FILE =
     Some (Json (JObj [(''theme'', JStr ''light'')]))"
proof -
  let ?M = "[(''theme'', JStr ''light'')]"
  let ?P = "start [CONFIG_FILE \<mapsto> Json (JObj [(''theme'', JStr ''dark''), (''maxItems'', JNum 50)]),
                   ''in.json'' \<mapsto> Json (JObj ?M)]"
  have f: "files ?P ''in.json'' = Some (Json (JObj ?M))"
    by (simp add: start_def)
  have d: "distinct (map fst ?M)"
    by simp
  have v: "validation_errors (own_entries (JObj ?M)) = Inr []"
    by code_simp
  have c: "map_of ?M ''maxItems'' = None"
    and l: "map_of (loadConfig ?P) ''maxItems'' = Some (Data (JNum 50))"
    and q: "map_of DEFAULT_CONFIG ''maxItems'' = Some (Data (JNum 100))"
    by code_simp+
  from import_merge_replace [of ?P "''in.json''" ?M "[]" False True "''maxItems''"] f d v
  have "map_of (loadConfig (config_import ''in.json'' True False True ?P)) ''maxItems'' =
          (case map_of ?M ''maxItems'' of Some j \<Rightarrow> Some (Data j)
           | None \<Rightarrow> map_of (loadConfig ?P) ''maxItems'')"
    and "map_of (loadConfig (config_import ''in.json'' False False True ?P)) ''maxItems'' =
          (case map_of ?M ''maxItems'' of Some j \<Rightarrow> Some (Data j)
           | None \<Rightarrow> map_of DEFAULT_CONFIG ''maxItems'')"
    and "files (config_import ''in.json'' False False True ?P) CONFIG_FILE = Some (Json (JObj ?M))"
    by blast+
  then show ?thesis
    using f d v by (simp only: c l q option.case)
qed


section \<open>Export and the round trip\<close>

text \<open>
  Claim C4 as stated does not hold: \<^verbatim>\<open>config export\<close> is registered with a file name and no
  option, so there is no modified-only mode, and the one export there is writes the whole
  document. On a directory without a configuration file the document equals the defaults,
  no value differs from its default, and the export holds all ten keys, not an empty set.
\<close>

theorem modified_only_export_counterexample:
  "loadConfig (start Map.empty) = DEFAULT_CONFIG \<and>
   files (config_export (Some ''out.json'') (start Map.empty)) ''out.json'' =
     Some (Json (JObj
       [(''theme'', JStr ''default''), (''colorOutput'', JBool True), (''dateFormat'', JStr ''locale''),
        (''defaultPriority'', JStr ''medium''), (''autoSave'', JBool True), (''maxItems'', JNum 100),
        (''apiUrl'', JStr ''https://api.example.com''), (''timeout'', JNum 5000),
        (''language'', JStr ''en''), (''debug'', JBool False)]))"
proof
  show "loadConfig (start Map.empty) = DEFAULT_CONFIG"
    by (simp add: loadConfig_def start_def)
  show "files (config_export (Some ''out.json'') (start Map.empty)) ''out.json'' =
     Some (Json (JObj
       [(''theme'', JStr ''default''), (''colorOutput'', JBool True), (''dateFormat'', JStr ''locale''),
        (''defaultPriority'', JStr ''medium''), (''autoSave'', JBool True), (''maxItems'', JNum 100),
        (''apiUrl'', JStr ''https://api.example.com''), (''timeout'', JNum 5000),
        (''language'', JStr ''en''), (''debug'', JBool False)]))"
    by (simp add: config_export_def Let_def loadConfig_def start_def DEFAULT_CONFIG_def)
qed

text \<open>
  Claim C4, amended. Export has one mode, all keys: for every document, whatever the file
  name, the export file holds the loaded document as \<^verbatim>\<open>JSON.stringify\<close> writes it, with the
  keys of the loaded document in their order and every key mapped to its value in the
  loaded document, whether or not the value differs from the default. So every key of the
  schema is in every export.
\<close>

theorem export_writes_every_key:
  "\<exists>doc.
     files (config_export filename p)
       (case filename of None \<Rightarrow> ''./config-export.json'' | Some f \<Rightarrow> f) = Some (Json (JObj doc)) \<and>
     JSON_stringify (Object (loadConfig p)) = JObj doc \<and>
     map fst doc = map fst (loadConfig p) \<and>
     (\<forall>k. map_of doc k = (case map_of (loadConfig p) k of Some (Data j) \<Rightarrow> Some j | _ \<Rightarrow> None)) \<and>
     list_all (\<lambda>k. k \<in> set (map fst doc)) (map fst DEFAULT_CONFIG)"
proof -
  let ?doc = "List.map_filter stringify_property (loadConfig p)"
  have f: "files (config_export filename p)
       (case filename of None \<Rightarrow> ''./config-export.json'' | Some f \<Rightarrow> f) = Some (Json (JObj ?doc))"
    by (simp add: config_export_def Let_def)
  have s: "JSON_stringify (Object (loadConfig p)) = JObj ?doc"
    by simp
  have k: "map fst ?doc = map fst (loadConfig p)"
    by (rule keys_stringify[OF all_data_loadConfig])
  have m: "\<forall>k. map_of ?doc k = (case map_of (loadConfig p) k of Some (Data j) \<Rightarrow> Some j | _ \<Rightarrow> None)"
    by (simp add: map_of_stringify[OF all_data_loadConfig])
  have d: "list_all (\<lambda>k. k \<in> set (map fst ?doc)) (map fst DEFAULT_CONFIG)"
    using loadConfig_keys[of p] by (auto simp: list_all_iff k)
  from f s k m d show ?thesis
    by blast
qed

text \<open>
  Claim C1 as stated does not hold. The document that has the defaults and the \<^verbatim>\<open>apiUrl\<close>
  \<^verbatim>\<open>"123"\<close> is valid: a non-empty string satisfies the validator of \<^verbatim>\<open>apiUrl\<close>. After exporting
  it and resetting the configuration, importing the export file converts \<^verbatim>\<open>"123"\<close> to a
  number before validating, reports a validation error for \<^verbatim>\<open>apiUrl\<close> and imports nothing:
  the document stays at the defaults.
\<close>

theorem round_trip_counterexample:
  "valid_document
     (loadConfig (start [CONFIG_FILE \<mapsto> Json (JObj [(''apiUrl'', JStr ''123'')])])) \<and>
   get_property
     (loadConfig (start [CONFIG_FILE \<mapsto> Json (JObj [(''apiUrl'', JStr ''123'')])])) ''apiUrl'' =
     Data (JStr ''123'') \<and>
   console
     (config_import ''backup.json'' False False True
       (config_reset None True False
         (config_export (Some ''backup.json'')
           (start [CONFIG_FILE \<mapsto> Json (JObj [(''apiUrl'', JStr ''123'')])])))) =
     [(Spinner, Configuration_exported ''backup.json'' 10), (Spinner, Configuration_reset),
      (Spinner, Validation_errors_found),
      (Log, Validation_error ''apiUrl'' (Text ''Must be a valid URL string'')),
      (Log, Use_force_hint)] \<and>
   get_property
     (loadConfig
       (config_import ''backup.json'' False False True
         (config_reset None True False
           (config_export (Some ''backup.json'')
             (start [CONFIG_FILE \<mapsto> Json (JObj [(''apiUrl'', JStr ''123'')])]))))) ''apiUrl'' =
     Data (JStr ''https://api.example.com'')"
  by code_simp

text \<open>
  Claim C1, amended. Let every entry of the loaded document \<open>D\<close> pass \<^verbatim>\<open>validateConfigValue\<close>
  (conversion included). When \<open>D\<close> is exported to a file, and that file is then imported
  without \<^verbatim>\<open>--merge\<close> and without \<^verbatim>\<open>--force\<close>, the user confirming the prompt, the
  configuration file holds the exported document and the loaded document is \<open>D\<close>, whatever
  the configuration file held when the import started.
\<close>

theorem export_import_round_trip:
  "validation_errors (loadConfig p) = Inr [] \<and> files q f = files (config_export (Some f) p) f \<longrightarrow>
     files (config_import f False False True q) CONFIG_FILE =
       Some (Json (JSON_stringify (Object (loadConfig p)))) \<and>
     loadConfig (config_import f False False True q) = loadConfig p"
proof (intro impI)
  assume a: "validation_errors (loadConfig p) = Inr [] \<and>
             files q f = files (config_export (Some f) p) f"
  let ?D = "loadConfig p"
  define m where "m = List.map_filter stringify_property ?D"
  have m: "JSON_stringify (Object ?D) = JObj m"
    by (simp add: m_def)
  have oe: "own_entries (JObj m) = ?D"
    using own_entries_stringify[OF all_data_loadConfig, of p] by (simp add: m_def)
  from a have f: "files q f = Some (Json (JObj m))"
    by (simp add: config_export_def m_def Let_def)
  from a have v: "validation_errors (own_entries (JObj m)) = Inr []"
    by (simp add: oe)
  from import_applied[OF f v, of False True False]
  have ap: "config_import f False False True q =
      emit Spinner (Configuration_imported f False (length ?D) (length ?D))
        (saveConfig (Parsed (JObj m)) q)"
    by (simp add: oe)
  have fl: "files (config_import f False False True q) CONFIG_FILE = Some (Json (JObj m))"
    by (simp add: ap)
  have "loadConfig (config_import f False False True q) = spread DEFAULT_CONFIG (own_entries (JObj m))"
    by (rule loadConfig_file[OF fl])
  also have "\<dots> = spread DEFAULT_CONFIG ?D"
    by (simp only: oe)
  also have "\<dots> = ?D"
    by (rule loadConfig_idem)
  finally have "loadConfig (config_import f False False True q) = loadConfig p" .
  with fl m show "files (config_import f False False True q) CONFIG_FILE =
       Some (Json (JSON_stringify (Object (loadConfig p)))) \<and>
     loadConfig (config_import f False False True q) = loadConfig p"
    by simp
qed

text \<open>The amended C1 on export, reset and import of a document with \<^verbatim>\<open>theme: dark\<close>.\<close>

theorem export_import_round_trip_witness:
  "validation_errors (loadConfig (start [CONFIG_FILE \<mapsto> Json (JObj [(''theme'', JStr ''dark'')])])) =
     Inr [] \<and>
   files (config_reset None True False
            (config_export (Some ''backup.json'')
               (start [CONFIG_FILE \<mapsto> Json (JObj [(''theme'', JStr ''dark'')])]))) ''backup.json'' =
     files (config_export (Some ''backup.json'')
              (start [CONFIG_FILE \<mapsto> Json (JObj [(''theme'', JStr ''dark'')])])) ''backup.json'' \<and>
   loadConfig (config_reset None True False
            (config_export (Some ''backup.json'')
               (start [CONFIG_FILE \<mapsto> Json (JObj [(''theme'', JStr ''dark'')])]))) = DEFAULT_CONFIG \<and>
   loadConfig (config_import ''backup.json'' False False True
      (config_reset None True False
         (config_export (Some ''backup.json'')
            (start [CONFIG_FILE \<mapsto> Json (JObj [(''theme'', JStr ''dark'')])])))) =
     loadConfig (start [CONFIG_FILE \<mapsto> Json (JObj [(''theme'', JStr ''dark'')])]) \<and>
   get_property (loadConfig (start [CONFIG_FILE \<mapsto> Json (JObj [(''theme'', JStr ''dark'')])]))
     ''theme'' = Data (JStr ''dark'')"
proof -
  let ?P = "start [CONFIG_FILE \<mapsto> Json (JObj [(''theme'', JStr ''dark'')])]"
  let ?Q = "config_reset None True False (config_export (Some ''backup.json'') ?P)"
  have v: "validation_errors (loadConfig ?P) = Inr []"
    by code_simp
  have f: "files ?Q ''backup.json'' = files (config_export (Some ''backup.json'') ?P) ''backup.json''"
    by (simp add: config_reset_def CONFIG_FILE_def)
  have r: "loadConfig ?Q = DEFAULT_CONFIG"
    by code_simp
  have t: "get_property (loadConfig ?P) ''theme'' = Data (JStr ''dark'')"
    by code_simp
  from export_import_round_trip [of ?P ?Q "''backup.json''"] v f
  have "loadConfig (config_import ''backup.json'' False False True ?Q) = loadConfig ?P"
    by blast
  with v f r t show ?thesis
    by blast
qed


section \<open>Setting under \<^verbatim>\<open>--force\<close>\<close>

text \<open>
  Claim C9 as stated does not hold for every key: under \<^verbatim>\<open>--force\<close> the assignment to the key
  \<^verbatim>\<open>__proto__\<close> runs the setter inherited from \<^verbatim>\<open>Object.prototype\<close>, which ignores a string, so
  the document that is saved holds the defaults and no such key.
\<close>

theorem force_set_proto_counterexample:
  "files (config_set ''__proto__'' ''x'' True (start Map.empty)) CONFIG_FILE =
     Some (Json (JObj
       [(''theme'', JStr ''default''), (''colorOutput'', JBool True), (''dateFormat'', JStr ''locale''),
        (''defaultPriority'', JStr ''medium''), (''autoSave'', JBool True), (''maxItems'', JNum 100),
        (''apiUrl'', JStr ''https://api.example.com''), (''timeout'', JNum 5000),
        (''language'', JStr ''en''), (''debug'', JBool False)]))"
  by (simp add: config_set_def set_and_save_def Let_def loadConfig_def start_def assign_def
        DEFAULT_CONFIG_def)

text \<open>
  Claim C9, amended. For every key other than \<^verbatim>\<open>__proto__\<close>, in the schema or not, and every
  raw value, \<^verbatim>\<open>config set --force\<close> saves a document that maps the key to the raw string as
  it is and every other key to its value in the loaded document. So a saved document with a
  value that its validator rejects (\<^verbatim>\<open>theme: neon\<close>) and one with a key outside the schema
  (\<^verbatim>\<open>plugin\<close>) are reachable.
\<close>

theorem force_set_skips_validation:
  "(key \<noteq> ''__proto__'' \<longrightarrow>
      (\<exists>doc. files (config_set key raw True p) CONFIG_FILE = Some (Json (JObj doc)) \<and>
             map_of doc key = Some (JStr raw) \<and>
             (\<forall>k. k \<noteq> key \<longrightarrow>
                  map_of doc k = (case map_of (loadConfig p) k of Some (Data j) \<Rightarrow> Some j | _ \<Rightarrow> None))))
   \<and> files (config_set ''theme'' ''neon'' True (start Map.empty)) CONFIG_FILE =
        Some (Json (JObj
          [(''theme'', JStr ''neon''), (''colorOutput'', JBool True), (''dateFormat'', JStr ''locale''),
           (''defaultPriority'', JStr ''medium''), (''autoSave'', JBool True), (''maxItems'', JNum 100),
           (''apiUrl'', JStr ''https://api.example.com''), (''timeout'', JNum 5000),
           (''language'', JStr ''en''), (''debug'', JBool False)]))
   \<and> validateConfigValue ''theme'' (Data (JStr ''neon'')) =
        Inr (Invalid (Text ''Must be one of: default, dark, light, rainbow''))
   \<and> files (config_set ''plugin'' ''on'' True (start Map.empty)) CONFIG_FILE =
        Some (Json (JObj
          [(''theme'', JStr ''default''), (''colorOutput'', JBool True), (''dateFormat'', JStr ''locale''),
           (''defaultPriority'', JStr ''medium''), (''autoSave'', JBool True), (''maxItems'', JNum 100),
           (''apiUrl'', JStr ''https://api.example.com''), (''timeout'', JNum 5000),
           (''language'', JStr ''en''), (''debug'', JBool False), (''plugin'', JStr ''on'')]))
   \<and> map_of validators ''plugin'' = None"
proof (intro conjI impI)
  assume k: "key \<noteq> ''__proto__''"
  let ?ob = "assign key (Data (JStr raw)) (loadConfig p)"
  have ad: "all_data ?ob"
    by (intro all_data_assign all_data_loadConfig)
  have f: "files (config_set key raw True p) CONFIG_FILE =
             Some (Json (JObj (List.map_filter stringify_property ?ob)))"
    by (simp add: config_set_def set_and_save_def Let_def)
  have "map_of (List.map_filter stringify_property ?ob) key = Some (JStr raw)"
    by (simp add: map_of_stringify[OF ad] map_of_assign[OF k])
  moreover have "\<forall>k. k \<noteq> key \<longrightarrow> map_of (List.map_filter stringify_property ?ob) k =
        (case map_of (loadConfig p) k of Some (Data j) \<Rightarrow> Some j | _ \<Rightarrow> None)"
    by (simp add: map_of_stringify[OF ad] map_of_assign[OF k])
  ultimately show "\<exists>doc. files (config_set key raw True p) CONFIG_FILE = Some (Json (JObj doc)) \<and>
             map_of doc key = Some (JStr raw) \<and>
             (\<forall>k. k \<noteq> key \<longrightarrow>
                  map_of doc k = (case map_of (loadConfig p) k of Some (Data j) \<Rightarrow> Some j | _ \<Rightarrow> None))"
    using f by blast
next
  show "files (config_set ''theme'' ''neon'' True (start Map.empty)) CONFIG_FILE =
        Some (Json (JObj
          [(''theme'', JStr ''neon''), (''colorOutput'', JBool True), (''dateFormat'', JStr ''locale''),
           (''defaultPriority'', JStr ''medium''), (''autoSave'', JBool True), (''maxItems'', JNum 100),
           (''apiUrl'', JStr ''https://api.example.com''), (''timeout'', JNum 5000),
           (''language'', JStr ''en''), (''debug'', JBool False)]))"
    by (simp add: config_set_def set_and_save_def Let_def loadConfig_def start_def assign_def
          DEFAULT_CONFIG_def)
  show "validateConfigValue ''theme'' (Data (JStr ''neon'')) =
        Inr (Invalid (Text ''Must be one of: default, dark, light, rainbow''))"
    by code_simp
  show "files (config_set ''plugin'' ''on'' True (start Map.empty)) CONFIG_FILE =
        Some (Json (JObj
          [(''theme'', JStr ''default''), (''colorOutput'', JBool True), (''dateFormat'', JStr ''locale''),
           (''defaultPriority'', JStr ''medium''), (''autoSave'', JBool True), (''maxItems'', JNum 100),
           (''apiUrl'', JStr ''https://api.example.com''), (''timeout'', JNum 5000),
           (''language'', JStr ''en''), (''debug'', JBool False), (''plugin'', JStr ''on'')]))"
    by (simp add: config_set_def set_and_save_def Let_def loadConfig_def start_def assign_def
          DEFAULT_CONFIG_def)
  show "map_of validators ''plugin'' = None"
    by (simp add: validators_def)
qed

text \<open>The amended C9 at the key \<^verbatim>\<open>theme\<close> and the value \<^verbatim>\<open>neon\<close>.\<close>

theorem force_set_skips_validation_witness:
  "''theme'' \<noteq> ''__proto__'' \<and>
   (\<exists>doc. files (config_set ''theme'' ''neon'' True (start Map.empty)) CONFIG_FILE =
            Some (Json (JObj doc)) \<and>
          map_of doc ''theme'' = Some (JStr ''neon'') \<and>
          map_of doc ''debug'' = Some (JBool False))"
proof -
  have k: "''theme'' \<noteq> ''__proto__''"
    by simp
  have l: "map_of (loadConfig (start Map.empty)) ''debug'' = Some (Data (JBool False))"
    by code_simp
  from force_set_skips_validation [of "''theme''" "''neon''" "start Map.empty"] k
  obtain doc where "files (config_set ''theme'' ''neon'' True (start Map.empty)) CONFIG_FILE =
            Some (Json (JObj doc))"
    and "map_of doc ''theme'' = Some (JStr ''neon'')"
    and d: "\<forall>k. k \<noteq> ''theme'' \<longrightarrow>
           map_of doc k = (case map_of (loadConfig (start Map.empty)) k of
                             Some (Data j) \<Rightarrow> Some j | _ \<Rightarrow> None)"
    by blast
  moreover from d l have "map_of doc ''debug'' = Some (JBool False)"
    by simp
  ultimately show ?thesis
    using k by blast
qed


section \<open>Errors and the exit status\<close>

text \<open>
  Claim C8 as stated does not hold: the commands report the error and return, and the exit
  status is 0, as after a command that succeeds. Shown for \<^verbatim>\<open>get\<close> and \<^verbatim>\<open>reset\<close> with an
  unknown key, for \<^verbatim>\<open>set\<close> with an invalid value, and for a successful \<^verbatim>\<open>get --all\<close>.
\<close>

theorem error_exit_status_counterexample:
  "console (config_get (Some ''nokey'') False ''simple'' (start Map.empty)) =
     [(Spinner, Configuration_loaded), (Error, Key_not_found ''nokey''),
      (Log, Available_keys [''theme'', ''colorOutput'', ''dateFormat'', ''defaultPriority'',
         ''autoSave'', ''maxItems'', ''apiUrl'', ''timeout'', ''language'', ''debug''])] \<and>
   exit_code (config_get (Some ''nokey'') False ''simple'' (start Map.empty)) = 0 \<and>
   console (config_set ''theme'' ''neon'' False (start Map.empty)) =
     [(Error, Validation_failed (Text ''Must be one of: default, dark, light, rainbow''))] \<and>
   exit_code (config_set ''theme'' ''neon'' False (start Map.empty)) = 0 \<and>
   console (config_reset (Some ''nokey'') True False (start Map.empty)) =
     [(Error, Unknown_key ''nokey'')] \<and>
   exit_code (config_reset (Some ''nokey'') True False (start Map.empty)) = 0 \<and>
   exit_code (config_get None True ''simple'' (start Map.empty)) = 0"
  by code_simp

text \<open>
  Claim C8, amended. A \<^verbatim>\<open>get\<close> of a key that the document does not have, a \<^verbatim>\<open>set\<close> whose
  validation fails and a \<^verbatim>\<open>reset\<close> of a key that the defaults do not have each write the
  error to the error stream and write no file. No configuration command changes the exit
  status: it is the same after an error as after a success.
\<close>

theorem errors_reported_status_unchanged:
  "(\<not> all \<and> k \<noteq> [] \<and> \<not> has_property k (loadConfig p) \<longrightarrow>
      console (config_get (Some k) all format p) =
        console p @ [(Spinner, Configuration_loaded), (Error, Key_not_found k),
                     (Log, Available_keys (map fst (loadConfig p)))] \<and>
      files (config_get (Some k) all format p) = files p)
   \<and> (validateConfigValue key (Data (JStr raw)) = Inr (Invalid m) \<longrightarrow>
        console (config_set key raw False p) = console p @ [(Error, Validation_failed m)] \<and>
        files (config_set key raw False p) = files p)
   \<and> (k \<noteq> [] \<and> \<not> has_property k DEFAULT_CONFIG \<longrightarrow>
        console (config_reset (Some k) force confirm p) = console p @ [(Error, Unknown_key k)] \<and>
        files (config_reset (Some k) force confirm p) = files p)
   \<and> exit_code (config_get key' all format p) = exit_code p
   \<and> exit_code (config_set key raw force p) = exit_code p
   \<and> exit_code (config_reset key' force confirm p) = exit_code p
   \<and> exit_code (config_export filename p) = exit_code p
   \<and> exit_code (config_import f mg force confirm p) = exit_code p"
  by (simp add: exit_code_config_get exit_code_config_set exit_code_config_reset
        exit_code_config_export exit_code_config_import)
     (simp add: config_get_def config_set_def config_reset_def Let_def)

text \<open>
  The amended C8 on a directory without files: \<^verbatim>\<open>get nokey\<close>, \<^verbatim>\<open>set theme neon\<close> and
  \<^verbatim>\<open>reset --key nokey\<close>.
\<close>

theorem errors_reported_status_unchanged_witness:
  "\<not> False \<and> ''nokey'' \<noteq> [] \<and> \<not> has_property ''nokey'' (loadConfig (start Map.empty)) \<and>
   console (config_get (Some ''nokey'') False ''simple'' (start Map.empty)) =
     [(Spinner, Configuration_loaded), (Error, Key_not_found ''nokey''),
      (Log, Available_keys (map fst (loadConfig (start Map.empty))))] \<and>
   files (config_get (Some ''nokey'') False ''simple'' (start Map.empty)) = Map.empty \<and>
   validateConfigValue ''theme'' (Data (JStr ''neon'')) =
     Inr (Invalid (Text ''Must be one of: default, dark, light, rainbow'')) \<and>
   console (config_set ''theme'' ''neon'' False (start Map.empty)) =
     [(Error, Validation_failed (Text ''Must be one of: default, dark, light, rainbow''))] \<and>
   \<not> has_property ''nokey'' DEFAULT_CONFIG \<and>
   console (config_reset (Some ''nokey'') True False (start Map.empty)) =
     [(Error, Unknown_key ''nokey'')] \<and>
   exit_code (config_get (Some ''nokey'') False ''simple'' (start Map.empty)) = 0 \<and>
   exit_code (config_set ''theme'' ''neon'' False (start Map.empty)) = 0 \<and>
   exit_code (config_reset (Some ''nokey'') True False (start Map.empty)) = 0"
proof -
  have g: "''nokey'' \<noteq> [] \<and> \<not> has_property ''nokey'' (loadConfig (start Map.empty))"
    and r: "\<not> has_property ''nokey'' DEFAULT_CONFIG"
    and v: "validateConfigValue ''theme'' (Data (JStr ''neon'')) =
              Inr (Invalid (Text ''Must be one of: default, dark, light, rainbow''))"
    by code_simp+
  from errors_reported_status_unchanged
         [of False "''nokey''" "start Map.empty" "''simple''" "''theme''" "''neon''"
            "Text ''Must be one of: default, dark, light, rainbow''" True False
            "Some ''nokey''" None "''in.json''" False] g r v
  have "console (config_get (Some ''nokey'') False ''simple'' (start Map.empty)) =
          console (start Map.empty) @
          [(Spinner, Configuration_loaded), (Error, Key_not_found ''nokey''),
           (Log, Available_keys (map fst (loadConfig (start Map.empty))))]"
    and "files (config_get (Some ''nokey'') False ''simple'' (start Map.empty)) =
          files (start Map.empty)"
    and "console (config_set ''theme'' ''neon'' False (start Map.empty)) =
          console (start Map.empty) @
          [(Error, Validation_failed (Text ''Must be one of: default, dark, light, rainbow''))]"
    and "console (config_reset (Some ''nokey'') True False (start Map.empty)) =
          console (start Map.empty) @ [(Error, Unknown_key ''nokey'')]"
    and "exit_code (config_get (Some ''nokey'') False ''simple'' (start Map.empty)) =
          exit_code (start Map.empty)"
    and "exit_code (config_set ''theme'' ''neon'' True (start Map.empty)) =
          exit_code (start Map.empty)"
    and "exit_code (config_reset (Some ''nokey'') True False (start Map.empty)) =
          exit_code (start Map.empty)"
    by blast+
  moreover have "exit_code (config_set ''theme'' ''neon'' False (start Map.empty)) = 0"
    by code_simp
  moreover have "console (start Map.empty) = [] \<and> files (start Map.empty) = Map.empty \<and>
                 exit_code (start Map.empty) = 0"
    by (simp add: start_def)
  ultimately show ?thesis
    using g r v by simp
qed

end
